theory Spec2Isabelle
  imports Main
begin

section \<open>The type-erased dataflow engine of TypeErasedDataflowAnalysis.cpp\<close>

text \<open>
  The development embeds the five functions of TypeErasedDataflowAnalysis.cpp
  (\<open>computeBlockInputState\<close>, \<open>transferCFGStmt\<close>, \<open>transferCFGInitializer\<close>,
  \<open>transferBlock\<close>, \<open>runTypeErasedDataflowAnalysis\<close>) and the accessor class
  \<open>StmtToEnvMapImpl\<close>.  Everything the file only includes (the CFG, the analysis plugin,
  the Environment, the built-in \<open>transfer\<close>, the worklist, \<open>DenseSet\<close>) is a parameter.

  A pointer to a block is the block's identifier, \<open>nat option\<close> where the pointer may be
  null.  A failed assertion, a null dereference and an access outside a vector are the
  value \<open>ContractViolation\<close>; the error returned at the iteration cap is \<open>TimedOut\<close>.
\<close>

subsection \<open>Data model\<close>

datatype failure = TimedOut | ContractViolation

type_synonym Stmt = nat

record FieldDecl =
  fieldId :: nat
  isReferenceType :: bool

record CXXCtorInitializer =
  getInit :: "Stmt option"
  getMember :: "FieldDecl option"

datatype CFGElement =
    Statement "Stmt option"
  | Initializer "CXXCtorInitializer option"
  | OtherElement

datatype TerminatorKind = StmtBranch | TemporaryDtorsBranch | VirtualBaseBranch

record CFGTerminator =
  getKind :: TerminatorKind
  getStmt :: "Stmt option"

definition isTemporaryDtorsBranch :: "CFGTerminator \<Rightarrow> bool" where
  "isTemporaryDtorsBranch T = (getKind T = TemporaryDtorsBranch)"

text \<open>A block; its identifier is its position in \<open>Blocks\<close>.  An edge holds the
  reachable block of clang's \<open>AdjacentBlock\<close>, which may be null.\<close>

record CFGBlock =
  Elements :: "CFGElement list"
  Preds :: "nat option list"
  Succs :: "nat option list"
  hasNoReturnElement :: bool
  getTerminator :: CFGTerminator

definition getTerminatorStmt :: "CFGBlock \<Rightarrow> Stmt option" where
  "getTerminatorStmt B = getStmt (getTerminator B)"

record CFG =
  Blocks :: "CFGBlock list"
  getEntry :: nat

definition size_CFG :: "CFG \<Rightarrow> nat" where
  "size_CFG G = length (Blocks G)"

record ControlFlowContext =
  getCFG :: CFG
  getStmtToBlock :: "Stmt \<Rightarrow> nat option"

record ('l, 'e) TypeErasedDataflowAnalysisState =
  Lattice :: 'l
  Env :: 'e

type_synonym ('l, 'e) BlockStates =
  "('l, 'e) TypeErasedDataflowAnalysisState option list"

text \<open>The analysis capability (class \<open>TypeErasedDataflowAnalysis\<close>).  A method that
  mutates an argument in place returns the new value.\<close>

record ('l, 'e) Analysis =
  typeErasedInitialElement :: 'l
  joinTypeErased :: "'l \<Rightarrow> 'l \<Rightarrow> 'l"
  isEqualTypeErased :: "'l \<Rightarrow> 'l \<Rightarrow> bool"
  transferTypeErased :: "Stmt \<Rightarrow> 'l \<Rightarrow> 'e \<Rightarrow> 'l \<times> 'e"
  applyBuiltinTransfer :: bool

datatype SkipPast = SkipPast_None | SkipPast_Reference | SkipPast_ReferenceThenPointer

text \<open>The operations of class \<open>Environment\<close> that the file calls, the constructor of
  \<open>ReferenceValue\<close>, \<open>AggregateStorageLocation::getChild\<close> and the built-in
  \<open>transfer\<close> of Transfer.h.  \<open>getThisPointeeStorageLocation\<close> is \<open>None\<close> where the
  \<open>cast<AggregateStorageLocation>\<close> of the file would fail.\<close>

record ('l, 'e, 'loc, 'val) Environment =
  env_join :: "('l, 'e) Analysis \<Rightarrow> 'e \<Rightarrow> 'e \<Rightarrow> 'e"
  equivalentTo :: "('l, 'e) Analysis \<Rightarrow> 'e \<Rightarrow> 'e \<Rightarrow> bool"
  getThisPointeeStorageLocation :: "'e \<Rightarrow> 'loc option"
  getStorageLocation :: "'e \<Rightarrow> Stmt \<Rightarrow> SkipPast \<Rightarrow> 'loc option"
  getValue :: "'e \<Rightarrow> 'loc \<Rightarrow> 'val option"
  setValue :: "'e \<Rightarrow> 'loc \<Rightarrow> 'val \<Rightarrow> 'e"
  takeOwnership :: "'e \<Rightarrow> 'val \<Rightarrow> 'e"
  ReferenceValue :: "'loc \<Rightarrow> 'val"
  getChild :: "'loc \<Rightarrow> FieldDecl \<Rightarrow> 'loc"
  transfer :: "(Stmt \<Rightarrow> 'e option) \<Rightarrow> Stmt \<Rightarrow> 'e \<Rightarrow> 'e"

text \<open>Vector and block accesses; outside the range the C++ is undefined.\<close>

definition getBlock :: "CFG \<Rightarrow> nat \<Rightarrow> failure + CFGBlock" where
  "getBlock G b = (if b < length (Blocks G) then Inr (Blocks G ! b) else Inl ContractViolation)"

definition getSlot :: "('l, 'e) BlockStates \<Rightarrow> nat \<Rightarrow>
    failure + ('l, 'e) TypeErasedDataflowAnalysisState option" where
  "getSlot BlockStates b =
     (if b < length BlockStates then Inr (BlockStates ! b) else Inl ContractViolation)"

subsection \<open>StmtToEnvMapImpl\<close>

text \<open>\<open>getEnvironment\<close> asserts that the statement has a block and that the block's slot
  is set.  It is only called from the built-in \<open>transfer\<close>, a parameter here, so the
  accessor is \<open>None\<close> where an assertion would fail.  These two assertions are
  therefore not among the failures a run of the model reports: whether they hold
  depends on which statements the built-in \<open>transfer\<close> asks for.\<close>

definition getEnvironment :: "ControlFlowContext \<Rightarrow> ('l, 'e) BlockStates \<Rightarrow> Stmt \<Rightarrow> 'e option" where
  "getEnvironment CFCtx BlockToState S =
     (case getStmtToBlock CFCtx S of
        None \<Rightarrow> None
      | Some b \<Rightarrow>
          (if b < length BlockToState
           then (case BlockToState ! b of None \<Rightarrow> None | Some State \<Rightarrow> Some (Env State))
           else None))"

subsection \<open>computeBlockInputState\<close>

text \<open>Lines 70 to 100: the set \<open>Preds\<close>.  \<open>iter\<close> gives the order in which a
  \<open>DenseSet\<close> filled from the given sequence is iterated (the order is not specified by
  \<open>DenseSet\<close>); \<open>erase\<close> is \<open>removeAll\<close>.\<close>

definition prunedPreds :: "(nat option list \<Rightarrow> nat option list) \<Rightarrow> ControlFlowContext \<Rightarrow>
    CFGBlock \<Rightarrow> failure + nat option list" where
  "prunedPreds iter CFCtx Block =
     (let Preds0 = iter (Preds Block) in
      if isTemporaryDtorsBranch (getTerminator Block) then
        (case Succs Block of
           [] \<Rightarrow> Inl ContractViolation
         | None # _ \<Rightarrow> Inl ContractViolation
         | Some y # _ \<Rightarrow>
             (case getBlock (getCFG CFCtx) y of
                Inl e \<Rightarrow> Inl e
              | Inr Y \<Rightarrow>
                  if hasNoReturnElement Y then
                    (case getTerminatorStmt Block of
                       None \<Rightarrow> Inl ContractViolation
                     | Some S \<Rightarrow>
                         (case getStmtToBlock CFCtx S of
                            None \<Rightarrow> Inl ContractViolation
                          | Some x \<Rightarrow> Inr (removeAll (Some x) Preds0)))
                  else Inr Preds0))
      else Inr Preds0)"

text \<open>Lines 118 and 119: \<open>joinTypeErased\<close> on the lattice elements and
  \<open>Environment::join\<close> on the environments, both into the first state.\<close>

definition joinInto :: "('l, 'e, 'loc, 'val) Environment \<Rightarrow> ('l, 'e) Analysis \<Rightarrow>
    ('l, 'e) TypeErasedDataflowAnalysisState \<Rightarrow> ('l, 'e) TypeErasedDataflowAnalysisState \<Rightarrow>
    ('l, 'e) TypeErasedDataflowAnalysisState" where
  "joinInto E A State PredState =
     \<lparr>Lattice = joinTypeErased A (Lattice State) (Lattice PredState),
      Env = env_join E A (Env State) (Env PredState)\<rparr>"

text \<open>Lines 102 to 123: the loop over \<open>Preds\<close> with the accumulator \<open>MaybeState\<close>.\<close>

fun joinPredStates :: "('l, 'e, 'loc, 'val) Environment \<Rightarrow> ('l, 'e) Analysis \<Rightarrow> CFG \<Rightarrow>
    ('l, 'e) BlockStates \<Rightarrow> nat option list \<Rightarrow>
    ('l, 'e) TypeErasedDataflowAnalysisState option \<Rightarrow>
    failure + ('l, 'e) TypeErasedDataflowAnalysisState option" where
  "joinPredStates E A G BlockStates [] MaybeState = Inr MaybeState"
| "joinPredStates E A G BlockStates (None # rest) MaybeState =
     joinPredStates E A G BlockStates rest MaybeState"
| "joinPredStates E A G BlockStates (Some p # rest) MaybeState =
     (case getBlock G p of
        Inl e \<Rightarrow> Inl e
      | Inr Pred \<Rightarrow>
          if hasNoReturnElement Pred then joinPredStates E A G BlockStates rest MaybeState
          else
            (case getSlot BlockStates p of
               Inl e \<Rightarrow> Inl e
             | Inr None \<Rightarrow> joinPredStates E A G BlockStates rest MaybeState
             | Inr (Some PredState) \<Rightarrow>
                 (case MaybeState of
                    Some State \<Rightarrow>
                      joinPredStates E A G BlockStates rest
                        (Some (joinInto E A State PredState))
                  | None \<Rightarrow> joinPredStates E A G BlockStates rest (Some PredState))))"

definition computeBlockInputState :: "(nat option list \<Rightarrow> nat option list) \<Rightarrow>
    ('l, 'e, 'loc, 'val) Environment \<Rightarrow> ControlFlowContext \<Rightarrow> ('l, 'e) BlockStates \<Rightarrow>
    CFGBlock \<Rightarrow> 'e \<Rightarrow> ('l, 'e) Analysis \<Rightarrow>
    failure + ('l, 'e) TypeErasedDataflowAnalysisState" where
  "computeBlockInputState iter E CFCtx BlockStates Block InitEnv A =
     (case prunedPreds iter CFCtx Block of
        Inl e \<Rightarrow> Inl e
      | Inr Preds1 \<Rightarrow>
          (case joinPredStates E A (getCFG CFCtx) BlockStates Preds1 None of
             Inl e \<Rightarrow> Inl e
           | Inr (Some State) \<Rightarrow> Inr State
           | Inr None \<Rightarrow> Inr \<lparr>Lattice = typeErasedInitialElement A, Env = InitEnv\<rparr>))"

subsection \<open>transferCFGStmt and transferCFGInitializer\<close>

text \<open>The observer \<open>HandleTransferredStmt\<close> is an optional function; what it does is
  threaded as a value of type \<open>'o\<close>.\<close>

definition transferCFGStmt :: "('l, 'e, 'loc, 'val) Environment \<Rightarrow> ControlFlowContext \<Rightarrow>
    ('l, 'e) BlockStates \<Rightarrow> Stmt option \<Rightarrow> ('l, 'e) Analysis \<Rightarrow>
    ('l, 'e) TypeErasedDataflowAnalysisState \<Rightarrow>
    (Stmt \<Rightarrow> ('l, 'e) TypeErasedDataflowAnalysisState \<Rightarrow> 'o \<Rightarrow> 'o) option \<Rightarrow> 'o \<Rightarrow>
    failure + (('l, 'e) TypeErasedDataflowAnalysisState \<times> 'o)" where
  "transferCFGStmt E CFCtx BlockStates CfgStmt A State HandleTransferredStmt obs =
     (case CfgStmt of
        None \<Rightarrow> Inl ContractViolation
      | Some S \<Rightarrow>
          (let Env1 = (if applyBuiltinTransfer A
                       then transfer E (getEnvironment CFCtx BlockStates) S (Env State)
                       else Env State);
               LE = transferTypeErased A S (Lattice State) Env1;
               State1 = \<lparr>Lattice = fst LE, Env = snd LE\<rparr>
           in Inr (State1,
                   (case HandleTransferredStmt of
                      None \<Rightarrow> obs
                    | Some Handle \<Rightarrow> Handle S State1 obs))))"

definition transferCFGInitializer :: "('l, 'e, 'loc, 'val) Environment \<Rightarrow>
    CXXCtorInitializer option \<Rightarrow> ('l, 'e) TypeErasedDataflowAnalysisState \<Rightarrow>
    failure + ('l, 'e) TypeErasedDataflowAnalysisState" where
  "transferCFGInitializer E CfgInit State =
     (case getThisPointeeStorageLocation E (Env State) of
        None \<Rightarrow> Inl ContractViolation
      | Some ThisLoc \<Rightarrow>
     (case CfgInit of
        None \<Rightarrow> Inl ContractViolation
      | Some CtorInit \<Rightarrow>
     (case getInit CtorInit of
        None \<Rightarrow> Inl ContractViolation
      | Some InitStmt \<Rightarrow>
     (case getStorageLocation E (Env State) InitStmt SkipPast_Reference of
        None \<Rightarrow> Inr State
      | Some InitStmtLoc \<Rightarrow>
     (case getValue E (Env State) InitStmtLoc of
        None \<Rightarrow> Inr State
      | Some InitStmtVal \<Rightarrow>
     (case getMember CtorInit of
        None \<Rightarrow> Inl ContractViolation
      | Some Member \<Rightarrow>
          if isReferenceType Member then
            (let MemberLoc = getChild E ThisLoc Member;
                 Ref = ReferenceValue E InitStmtLoc
             in Inr (State\<lparr>Env := setValue E (takeOwnership E (Env State) Ref) MemberLoc Ref\<rparr>))
          else
            (let MemberLoc = getChild E ThisLoc Member
             in Inr (State\<lparr>Env := setValue E (Env State) MemberLoc InitStmtVal\<rparr>))))))))"

subsection \<open>transferBlock\<close>

text \<open>The body of the \<open>switch\<close> over one element, then the loop over the block.\<close>

definition transferElement :: "('l, 'e, 'loc, 'val) Environment \<Rightarrow> ControlFlowContext \<Rightarrow>
    ('l, 'e) BlockStates \<Rightarrow> ('l, 'e) Analysis \<Rightarrow>
    (Stmt \<Rightarrow> ('l, 'e) TypeErasedDataflowAnalysisState \<Rightarrow> 'o \<Rightarrow> 'o) option \<Rightarrow>
    CFGElement \<Rightarrow> ('l, 'e) TypeErasedDataflowAnalysisState \<Rightarrow> 'o \<Rightarrow>
    failure + (('l, 'e) TypeErasedDataflowAnalysisState \<times> 'o)" where
  "transferElement E CFCtx BlockStates A HandleTransferredStmt Element State obs =
     (case Element of
        Statement CfgStmt \<Rightarrow>
          transferCFGStmt E CFCtx BlockStates CfgStmt A State HandleTransferredStmt obs
      | Initializer CfgInit \<Rightarrow>
          if applyBuiltinTransfer A then
            (case transferCFGInitializer E CfgInit State of
               Inl e \<Rightarrow> Inl e
             | Inr State1 \<Rightarrow> Inr (State1, obs))
          else Inr (State, obs)
      | OtherElement \<Rightarrow> Inr (State, obs))"

fun transferElements :: "('l, 'e, 'loc, 'val) Environment \<Rightarrow> ControlFlowContext \<Rightarrow>
    ('l, 'e) BlockStates \<Rightarrow> ('l, 'e) Analysis \<Rightarrow>
    (Stmt \<Rightarrow> ('l, 'e) TypeErasedDataflowAnalysisState \<Rightarrow> 'o \<Rightarrow> 'o) option \<Rightarrow>
    CFGElement list \<Rightarrow> ('l, 'e) TypeErasedDataflowAnalysisState \<Rightarrow> 'o \<Rightarrow>
    failure + (('l, 'e) TypeErasedDataflowAnalysisState \<times> 'o)" where
  "transferElements E CFCtx BlockStates A H [] State obs = Inr (State, obs)"
| "transferElements E CFCtx BlockStates A H (Element # rest) State obs =
     (case transferElement E CFCtx BlockStates A H Element State obs of
        Inl e \<Rightarrow> Inl e
      | Inr (State1, obs1) \<Rightarrow> transferElements E CFCtx BlockStates A H rest State1 obs1)"

definition transferBlock :: "(nat option list \<Rightarrow> nat option list) \<Rightarrow>
    ('l, 'e, 'loc, 'val) Environment \<Rightarrow> ControlFlowContext \<Rightarrow> ('l, 'e) BlockStates \<Rightarrow>
    CFGBlock \<Rightarrow> 'e \<Rightarrow> ('l, 'e) Analysis \<Rightarrow>
    (Stmt \<Rightarrow> ('l, 'e) TypeErasedDataflowAnalysisState \<Rightarrow> 'o \<Rightarrow> 'o) option \<Rightarrow> 'o \<Rightarrow>
    failure + (('l, 'e) TypeErasedDataflowAnalysisState \<times> 'o)" where
  "transferBlock iter E CFCtx BlockStates Block InitEnv A HandleTransferredStmt obs =
     (case computeBlockInputState iter E CFCtx BlockStates Block InitEnv A of
        Inl e \<Rightarrow> Inl e
      | Inr State \<Rightarrow>
          transferElements E CFCtx BlockStates A HandleTransferredStmt (Elements Block) State obs)"

subsection \<open>runTypeErasedDataflowAnalysis\<close>

text \<open>\<open>ForwardDataflowWorklist\<close> (DataflowWorklist.h) is a parameter: its constructor
  and the two methods the driver calls, over a worklist state \<open>'w\<close>.\<close>

record 'w ForwardDataflowWorklist =
  newWorklist :: "CFG \<Rightarrow> 'w"
  enqueueSuccessors :: "'w \<Rightarrow> CFGBlock \<Rightarrow> 'w"
  dequeue :: "'w \<Rightarrow> (nat \<times> 'w) option"

definition MaxIterations :: nat where
  "MaxIterations = 2 ^ 16"

text \<open>Lines 248 to 268: the body of the loop after the check of the counter, for the
  dequeued block \<open>b\<close>.  \<open>transferBlock\<close> is called without an observer.\<close>

definition processBlock :: "(nat option list \<Rightarrow> nat option list) \<Rightarrow>
    'w ForwardDataflowWorklist \<Rightarrow> ('l, 'e, 'loc, 'val) Environment \<Rightarrow> ControlFlowContext \<Rightarrow>
    ('l, 'e) Analysis \<Rightarrow> 'e \<Rightarrow> nat \<Rightarrow> 'w \<Rightarrow> ('l, 'e) BlockStates \<Rightarrow>
    failure + ('w \<times> ('l, 'e) BlockStates)" where
  "processBlock iter W E CFCtx A InitEnv b Worklist BlockStates =
     (case getBlock (getCFG CFCtx) b of
        Inl e \<Rightarrow> Inl e
      | Inr Block \<Rightarrow>
     (case getSlot BlockStates b of
        Inl e \<Rightarrow> Inl e
      | Inr OldBlockState \<Rightarrow>
     (case transferBlock iter E CFCtx BlockStates Block InitEnv A
             (None :: (Stmt \<Rightarrow> ('l, 'e) TypeErasedDataflowAnalysisState \<Rightarrow> unit \<Rightarrow> unit) option) () of
        Inl e \<Rightarrow> Inl e
      | Inr (NewBlockState, _) \<Rightarrow>
          if (case OldBlockState of
                None \<Rightarrow> False
              | Some Old \<Rightarrow>
                  isEqualTypeErased A (Lattice Old) (Lattice NewBlockState) \<and>
                  equivalentTo E A (Env Old) (Env NewBlockState))
          then Inr (Worklist, BlockStates)
          else
            (let BlockStates1 = BlockStates[b := Some NewBlockState]
             in if hasNoReturnElement Block then Inr (Worklist, BlockStates1)
                else Inr (enqueueSuccessors W Worklist Block, BlockStates1)))))"

text \<open>Lines 240 to 269: the loop.  \<open>Iterations\<close> is a \<open>uint32_t\<close> that never exceeds
  \<open>MaxIterations + 1\<close>, so it does not wrap.  Beside the result the function returns the
  blocks handed out by \<open>dequeue\<close>, in order.\<close>

function fixpointLoop :: "(nat option list \<Rightarrow> nat option list) \<Rightarrow>
    'w ForwardDataflowWorklist \<Rightarrow> ('l, 'e, 'loc, 'val) Environment \<Rightarrow> ControlFlowContext \<Rightarrow>
    ('l, 'e) Analysis \<Rightarrow> 'e \<Rightarrow> 'w \<Rightarrow> nat \<Rightarrow> ('l, 'e) BlockStates \<Rightarrow>
    (failure + ('l, 'e) BlockStates) \<times> nat list" where
  "fixpointLoop iter W E CFCtx A InitEnv Worklist Iterations BlockStates =
     (case dequeue W Worklist of
        None \<Rightarrow> (Inr BlockStates, [])
      | Some (b, Worklist1) \<Rightarrow>
          if Suc Iterations > MaxIterations then (Inl TimedOut, [b])
          else
            (case processBlock iter W E CFCtx A InitEnv b Worklist1 BlockStates of
               Inl e \<Rightarrow> (Inl e, [b])
             | Inr (Worklist2, BlockStates2) \<Rightarrow>
                 (let r = fixpointLoop iter W E CFCtx A InitEnv Worklist2 (Suc Iterations)
                            BlockStates2
                  in (fst r, b # snd r))))"
  by pat_completeness auto
termination
  by (relation "measure (\<lambda>(iter, W, E, CFCtx, A, InitEnv, Worklist, Iterations, BlockStates).
        Suc MaxIterations - Iterations)") auto

text \<open>Lines 222 to 232 and the call of the loop.\<close>

definition runWithDequeues :: "(nat option list \<Rightarrow> nat option list) \<Rightarrow>
    'w ForwardDataflowWorklist \<Rightarrow> ('l, 'e, 'loc, 'val) Environment \<Rightarrow> ControlFlowContext \<Rightarrow>
    ('l, 'e) Analysis \<Rightarrow> 'e \<Rightarrow> (failure + ('l, 'e) BlockStates) \<times> nat list" where
  "runWithDequeues iter W E CFCtx A InitEnv =
     (let G = getCFG CFCtx;
          Worklist = newWorklist W G;
          BlockStates = replicate (size_CFG G) None
      in case getBlock G (getEntry G) of
           Inl e \<Rightarrow> (Inl e, [])
         | Inr Entry \<Rightarrow>
             (let BlockStates1 = BlockStates[getEntry G :=
                    Some \<lparr>Lattice = typeErasedInitialElement A, Env = InitEnv\<rparr>];
                  Worklist1 = enqueueSuccessors W Worklist Entry
              in fixpointLoop iter W E CFCtx A InitEnv Worklist1 0 BlockStates1))"

definition runTypeErasedDataflowAnalysis :: "(nat option list \<Rightarrow> nat option list) \<Rightarrow>
    'w ForwardDataflowWorklist \<Rightarrow> ('l, 'e, 'loc, 'val) Environment \<Rightarrow> ControlFlowContext \<Rightarrow>
    ('l, 'e) Analysis \<Rightarrow> 'e \<Rightarrow> failure + ('l, 'e) BlockStates" where
  "runTypeErasedDataflowAnalysis iter W E CFCtx A InitEnv =
     fst (runWithDequeues iter W E CFCtx A InitEnv)"

subsection \<open>What the inputs must satisfy\<close>

text \<open>The file relies on its callers for the following (its assertions say so): the
  entry and every edge name a block of the graph; a block whose terminator is a
  temporary-destructor branch has a first successor, and when that successor has a
  no-return element the terminator statement is in the statement-to-block map; a
  statement element holds a statement; where the built-in transfer is on, an initializer
  element holds an initializer with an init expression and a member, and every
  environment has a receiver location.\<close>

definition wf_edges :: "CFG \<Rightarrow> bool" where
  "wf_edges G =
     (\<forall>B \<in> set (Blocks G).
        (\<forall>p. Some p \<in> set (Preds B) \<longrightarrow> p < size_CFG G) \<and>
        (\<forall>c. Some c \<in> set (Succs B) \<longrightarrow> c < size_CFG G))"

definition wf_terminator :: "ControlFlowContext \<Rightarrow> CFGBlock \<Rightarrow> bool" where
  "wf_terminator CFCtx B =
     (if isTemporaryDtorsBranch (getTerminator B) then
        (case Succs B of
           Some y # _ \<Rightarrow>
             (if hasNoReturnElement (Blocks (getCFG CFCtx) ! y) then
                (case getTerminatorStmt B of
                   None \<Rightarrow> False
                 | Some S \<Rightarrow> getStmtToBlock CFCtx S \<noteq> None)
              else True)
         | _ \<Rightarrow> False)
      else True)"

definition wf_element :: "('l, 'e, 'loc, 'val) Environment \<Rightarrow> ('l, 'e) Analysis \<Rightarrow>
    CFGElement \<Rightarrow> bool" where
  "wf_element E A Element =
     (case Element of
        Statement CfgStmt \<Rightarrow> CfgStmt \<noteq> None
      | Initializer CfgInit \<Rightarrow>
          (if applyBuiltinTransfer A then
             (case CfgInit of
                None \<Rightarrow> False
              | Some CtorInit \<Rightarrow> getInit CtorInit \<noteq> None \<and> getMember CtorInit \<noteq> None) \<and>
             (\<forall>env. getThisPointeeStorageLocation E env \<noteq> None)
           else True)
      | OtherElement \<Rightarrow> True)"

definition wf_context :: "('l, 'e, 'loc, 'val) Environment \<Rightarrow> ('l, 'e) Analysis \<Rightarrow>
    ControlFlowContext \<Rightarrow> bool" where
  "wf_context E A CFCtx =
     (getEntry (getCFG CFCtx) < size_CFG (getCFG CFCtx) \<and>
      wf_edges (getCFG CFCtx) \<and>
      (\<forall>B \<in> set (Blocks (getCFG CFCtx)).
         wf_terminator CFCtx B \<and> (\<forall>Element \<in> set (Elements B). wf_element E A Element)))"

text \<open>Iterating a \<open>DenseSet\<close> visits each of its elements once, in some order.\<close>

definition denseSetOrder :: "(nat option list \<Rightarrow> nat option list) \<Rightarrow> bool" where
  "denseSetOrder iter = (\<forall>xs. distinct (iter xs) \<and> set (iter xs) = set xs)"

text \<open>A worklist holds a set of pending blocks (\<open>pending\<close>, under the invariant
  \<open>winv\<close> of its representation): it starts empty, \<open>enqueueSuccessors\<close> adds the
  successors that are not null, and \<open>dequeue\<close> removes one pending block, or returns
  nothing when none is pending.\<close>

definition worklistContract :: "'w ForwardDataflowWorklist \<Rightarrow> ('w \<Rightarrow> nat set) \<Rightarrow>
    ('w \<Rightarrow> bool) \<Rightarrow> CFG \<Rightarrow> bool" where
  "worklistContract W pending winv G =
     (winv (newWorklist W G) \<and> pending (newWorklist W G) = {} \<and>
      (\<forall>w B. winv w \<longrightarrow>
         winv (enqueueSuccessors W w B) \<and>
         pending (enqueueSuccessors W w B) = pending w \<union> {c. Some c \<in> set (Succs B)}) \<and>
      (\<forall>w. winv w \<longrightarrow>
         (case dequeue W w of
            None \<Rightarrow> pending w = {}
          | Some (b, w1) \<Rightarrow> b \<in> pending w \<and> winv w1 \<and> pending w1 = pending w - {b})))"

subsection \<open>The join policy and reachability in the words of the specification\<close>

text \<open>Step 3 of the join policy: of the given predecessors, those that are not null,
  have no no-return element and have a set slot.\<close>

fun survivingPreds :: "CFG \<Rightarrow> ('l, 'e) BlockStates \<Rightarrow> nat option list \<Rightarrow> nat list" where
  "survivingPreds G BlockStates [] = []"
| "survivingPreds G BlockStates (None # rest) = survivingPreds G BlockStates rest"
| "survivingPreds G BlockStates (Some p # rest) =
     (if \<not> hasNoReturnElement (Blocks G ! p) \<and> BlockStates ! p \<noteq> None
      then p # survivingPreds G BlockStates rest
      else survivingPreds G BlockStates rest)"

text \<open>Steps 4 and 5: the first state seeds the accumulator, each later one is merged
  into it; with no state the result is the initial state.\<close>

definition joinedState :: "('l, 'e, 'loc, 'val) Environment \<Rightarrow> ('l, 'e) Analysis \<Rightarrow>
    ('l, 'e) TypeErasedDataflowAnalysisState \<Rightarrow> ('l, 'e) TypeErasedDataflowAnalysisState list \<Rightarrow>
    ('l, 'e) TypeErasedDataflowAnalysisState" where
  "joinedState E A Initial States =
     (case States of [] \<Rightarrow> Initial | State # rest \<Rightarrow> foldl (joinInto E A) State rest)"

text \<open>The blocks the driver can reach: the entry, the successors of the entry, and the
  successors of every reached block that has no no-return element.\<close>

inductive reached :: "CFG \<Rightarrow> nat \<Rightarrow> bool" for G :: CFG where
  reached_entry: "reached G (getEntry G)"
| reached_succ: "reached G b \<Longrightarrow> b < size_CFG G \<Longrightarrow>
     b = getEntry G \<or> \<not> hasNoReturnElement (Blocks G ! b) \<Longrightarrow>
     Some c \<in> set (Succs (Blocks G ! b)) \<Longrightarrow> reached G c"

text \<open>The invariant of the loop of the driver: the store has one slot per block and the
  entry's slot is set; a pending block and a block with a set slot are reached; and
  every successor of a block with a set slot, which is the entry or has no no-return
  element, has a set slot or is pending.\<close>

definition driverInvariant :: "('w \<Rightarrow> nat set) \<Rightarrow> ('w \<Rightarrow> bool) \<Rightarrow> CFG \<Rightarrow> 'w \<Rightarrow>
    ('l, 'e) BlockStates \<Rightarrow> bool" where
  "driverInvariant pending winv G w BS =
     (winv w \<and> length BS = size_CFG G \<and> BS ! getEntry G \<noteq> None \<and>
      (\<forall>b \<in> pending w. reached G b \<and> b < size_CFG G) \<and>
      (\<forall>b < size_CFG G. BS ! b \<noteq> None \<longrightarrow> reached G b) \<and>
      (\<forall>b < size_CFG G. BS ! b \<noteq> None \<longrightarrow>
         (b = getEntry G \<or> \<not> hasNoReturnElement (Blocks G ! b)) \<longrightarrow>
         (\<forall>c. Some c \<in> set (Succs (Blocks G ! b)) \<longrightarrow> BS ! c \<noteq> None \<or> c \<in> pending w)))"

subsection \<open>The steps of a statement and of the driver in the words of the specification\<close>

text \<open>The built-in transfer, applied when the analysis asks for it; the plugin's
  transfer; the observer, applied when one is supplied.\<close>

definition builtinStep :: "('l, 'e, 'loc, 'val) Environment \<Rightarrow> ('l, 'e) Analysis \<Rightarrow>
    ControlFlowContext \<Rightarrow> ('l, 'e) BlockStates \<Rightarrow> Stmt \<Rightarrow>
    ('l, 'e) TypeErasedDataflowAnalysisState \<Rightarrow> ('l, 'e) TypeErasedDataflowAnalysisState" where
  "builtinStep E A CFCtx BlockStates S State =
     (if applyBuiltinTransfer A
      then State\<lparr>Env := transfer E (getEnvironment CFCtx BlockStates) S (Env State)\<rparr>
      else State)"

definition pluginStep :: "('l, 'e) Analysis \<Rightarrow> Stmt \<Rightarrow>
    ('l, 'e) TypeErasedDataflowAnalysisState \<Rightarrow> ('l, 'e) TypeErasedDataflowAnalysisState" where
  "pluginStep A S State =
     (case transferTypeErased A S (Lattice State) (Env State) of
        (l, env) \<Rightarrow> \<lparr>Lattice = l, Env = env\<rparr>)"

definition observerStep ::
    "(Stmt \<Rightarrow> ('l, 'e) TypeErasedDataflowAnalysisState \<Rightarrow> 'o \<Rightarrow> 'o) option \<Rightarrow> Stmt \<Rightarrow>
     ('l, 'e) TypeErasedDataflowAnalysisState \<Rightarrow> 'o \<Rightarrow> 'o" where
  "observerStep H S State obs = (case H of None \<Rightarrow> obs | Some Handle \<Rightarrow> Handle S State obs)"

text \<open>One more element after a run that may already have failed.\<close>

definition thenElement :: "('l, 'e, 'loc, 'val) Environment \<Rightarrow> ControlFlowContext \<Rightarrow>
    ('l, 'e) BlockStates \<Rightarrow> ('l, 'e) Analysis \<Rightarrow>
    (Stmt \<Rightarrow> ('l, 'e) TypeErasedDataflowAnalysisState \<Rightarrow> 'o \<Rightarrow> 'o) option \<Rightarrow>
    failure + (('l, 'e) TypeErasedDataflowAnalysisState \<times> 'o) \<Rightarrow> CFGElement \<Rightarrow>
    failure + (('l, 'e) TypeErasedDataflowAnalysisState \<times> 'o)" where
  "thenElement E CFCtx BlockStates A H r Element =
     (case r of
        Inl e \<Rightarrow> Inl e
      | Inr (State, obs) \<Rightarrow> transferElement E CFCtx BlockStates A H Element State obs)"

text \<open>The state of a block has changed when its slot was unset, or when the new state
  is not both equal in the lattice and equivalent in the environment to the stored one.\<close>

definition stateChanged :: "('l, 'e, 'loc, 'val) Environment \<Rightarrow> ('l, 'e) Analysis \<Rightarrow>
    ('l, 'e) TypeErasedDataflowAnalysisState option \<Rightarrow>
    ('l, 'e) TypeErasedDataflowAnalysisState \<Rightarrow> bool" where
  "stateChanged E A OldBlockState NewBlockState =
     (case OldBlockState of
        None \<Rightarrow> True
      | Some Old \<Rightarrow>
          \<not> (isEqualTypeErased A (Lattice Old) (Lattice NewBlockState) \<and>
             equivalentTo E A (Env Old) (Env NewBlockState)))"

subsection \<open>Instances used to run the engine\<close>

text \<open>A first-in first-out worklist without duplicates.\<close>

definition enqueueBlock :: "nat list \<Rightarrow> nat option \<Rightarrow> nat list" where
  "enqueueBlock q Block =
     (case Block of None \<Rightarrow> q | Some c \<Rightarrow> if c \<in> set q then q else q @ [c])"

definition fifoWorklist :: "nat list ForwardDataflowWorklist" where
  "fifoWorklist =
     \<lparr>newWorklist = (\<lambda>G. []),
      enqueueSuccessors = (\<lambda>q B. foldl enqueueBlock q (Succs B)),
      dequeue = (\<lambda>q. case q of [] \<Rightarrow> None | b # rest \<Rightarrow> Some (b, rest))\<rparr>"

text \<open>An analysis whose lattice element is the list of statements seen so far; its
  transfer also binds location 0 to the statement.\<close>

definition tracingAnalysis :: "bool \<Rightarrow> (Stmt list, (nat \<times> nat) list) Analysis" where
  "tracingAnalysis builtin =
     \<lparr>typeErasedInitialElement = [],
      joinTypeErased = (\<lambda>a b. a @ b),
      isEqualTypeErased = (\<lambda>a b. a = b),
      transferTypeErased = (\<lambda>S l env. (l @ [S], (0, S) # env)),
      applyBuiltinTransfer = builtin\<rparr>"

text \<open>An environment that is a list of bindings of locations to values, the latest
  first.  Statement \<open>S\<close> below 100 has the location \<open>S + 1\<close>, the receiver is location 0,
  and the built-in transfer binds the location of the statement to the statement.\<close>

definition listEnvironment ::
    "(Stmt list, (nat \<times> nat) list, nat, nat) Environment" where
  "listEnvironment =
     \<lparr>env_join = (\<lambda>A e1 e2. filter (\<lambda>b. b \<in> set e2) e1),
      equivalentTo = (\<lambda>A e1 e2. e1 = e2),
      getThisPointeeStorageLocation = (\<lambda>env. Some 0),
      getStorageLocation = (\<lambda>env S skip. if S < 100 then Some (S + 1) else None),
      getValue = (\<lambda>env loc. map_of env loc),
      setValue = (\<lambda>env loc v. (loc, v) # env),
      takeOwnership = (\<lambda>env v. env),
      ReferenceValue = (\<lambda>loc. 1000 + loc),
      getChild = (\<lambda>loc Member. loc + 10 * Suc (fieldId Member)),
      transfer = (\<lambda>getEnv S env. (S + 1, S) # env)\<rparr>"

definition plainBlock :: "CFGElement list \<Rightarrow> nat option list \<Rightarrow> nat option list \<Rightarrow> CFGBlock" where
  "plainBlock els ps ss =
     \<lparr>Elements = els, Preds = ps, Succs = ss, hasNoReturnElement = False,
      getTerminator = \<lparr>getKind = StmtBranch, getStmt = None\<rparr>\<rparr>"

text \<open>The graph of the comment in \<open>computeBlockInputState\<close>: B1 branches to B2 and B3,
  B3 constructs the temporary (statement 30), B4 has the temporary-destructor terminator
  with successors B5 (no-return) and B6.  B7 is the entry, B0 the exit, and B8 is only
  entered from B5.\<close>

definition dtorCFG :: CFG where
  "dtorCFG =
     \<lparr>Blocks =
        [plainBlock [] [Some 6, Some 8] [],
         plainBlock [Statement (Some 10)] [Some 7] [Some 2, Some 3],
         plainBlock [Statement (Some 20)] [Some 1] [Some 4],
         plainBlock [Statement (Some 30)] [Some 1] [Some 4],
         \<lparr>Elements = [], Preds = [Some 2, Some 3], Succs = [Some 5, Some 6],
          hasNoReturnElement = False,
          getTerminator = \<lparr>getKind = TemporaryDtorsBranch, getStmt = Some 30\<rparr>\<rparr>,
         \<lparr>Elements = [Statement (Some 50)], Preds = [Some 4], Succs = [Some 8],
          hasNoReturnElement = True,
          getTerminator = \<lparr>getKind = StmtBranch, getStmt = None\<rparr>\<rparr>,
         plainBlock [Statement (Some 60)] [Some 4] [Some 0],
         plainBlock [] [] [Some 1],
         plainBlock [] [Some 5] [Some 0]],
      getEntry = 7\<rparr>"

definition dtorContext :: ControlFlowContext where
  "dtorContext =
     \<lparr>getCFG = dtorCFG,
      getStmtToBlock = (\<lambda>S. if S \<in> {10, 20, 30, 50, 60} then Some (S div 10) else None)\<rparr>"

text \<open>A block with an edge to itself, entered from the entry block 1.\<close>

definition loopCFG :: CFG where
  "loopCFG =
     \<lparr>Blocks = [plainBlock [Statement (Some 5)] [Some 1, Some 0] [Some 0],
                plainBlock [] [] [Some 0]],
      getEntry = 1\<rparr>"

definition loopContext :: ControlFlowContext where
  "loopContext = \<lparr>getCFG = loopCFG, getStmtToBlock = (\<lambda>S. if S = 5 then Some 0 else None)\<rparr>"

text \<open>The store when B4 of \<open>dtorCFG\<close> is dequeued: B1, B2, B3 and the entry are set.\<close>

definition dtorStates :: "(Stmt list, (nat \<times> nat) list) BlockStates" where
  "dtorStates =
     [None, Some \<lparr>Lattice = [10], Env = [(0, 10)]\<rparr>,
      Some \<lparr>Lattice = [10, 20], Env = [(0, 20), (0, 10)]\<rparr>,
      Some \<lparr>Lattice = [10, 30], Env = [(0, 30), (0, 10)]\<rparr>,
      None, None, None, Some \<lparr>Lattice = [], Env = []\<rparr>, None]"

text \<open>The store that the run on \<open>dtorCFG\<close> returns.\<close>

definition dtorResult :: "(Stmt list, (nat \<times> nat) list) BlockStates" where
  "dtorResult =
     [Some \<lparr>Lattice = [10, 20, 60], Env = [(0, 60), (0, 20), (0, 10)]\<rparr>,
      Some \<lparr>Lattice = [10], Env = [(0, 10)]\<rparr>,
      Some \<lparr>Lattice = [10, 20], Env = [(0, 20), (0, 10)]\<rparr>,
      Some \<lparr>Lattice = [10, 30], Env = [(0, 30), (0, 10)]\<rparr>,
      Some \<lparr>Lattice = [10, 20], Env = [(0, 20), (0, 10)]\<rparr>,
      Some \<lparr>Lattice = [10, 20, 50], Env = [(0, 50), (0, 20), (0, 10)]\<rparr>,
      Some \<lparr>Lattice = [10, 20, 60], Env = [(0, 60), (0, 20), (0, 10)]\<rparr>,
      Some \<lparr>Lattice = [], Env = []\<rparr>, None]"

text \<open>An analysis that counts the statements transferred, over an environment without
  content.  On \<open>loopCFG\<close> it never converges.\<close>

definition countingAnalysis :: "(nat, unit) Analysis" where
  "countingAnalysis =
     \<lparr>typeErasedInitialElement = 0,
      joinTypeErased = (\<lambda>a b. max a b),
      isEqualTypeErased = (\<lambda>a b. a = b),
      transferTypeErased = (\<lambda>S l env. (Suc l, env)),
      applyBuiltinTransfer = False\<rparr>"

definition unitEnvironment :: "(nat, unit, unit, unit) Environment" where
  "unitEnvironment =
     \<lparr>env_join = (\<lambda>A e1 e2. ()),
      equivalentTo = (\<lambda>A e1 e2. True),
      getThisPointeeStorageLocation = (\<lambda>env. None),
      getStorageLocation = (\<lambda>env S skip. None),
      getValue = (\<lambda>env loc. None),
      setValue = (\<lambda>env loc v. ()),
      takeOwnership = (\<lambda>env v. ()),
      ReferenceValue = (\<lambda>loc. ()),
      getChild = (\<lambda>loc Member. ()),
      transfer = (\<lambda>getEnv S env. ())\<rparr>"

section \<open>Properties\<close>

subsection \<open>Facts about the instances\<close>

lemma denseSetOrder_remdups: "denseSetOrder remdups"
  by (simp add: denseSetOrder_def)

lemma Blocks_dtorCFG_nth:
  "Blocks dtorCFG ! 4 =
     \<lparr>Elements = [], Preds = [Some 2, Some 3], Succs = [Some 5, Some 6],
      hasNoReturnElement = False,
      getTerminator = \<lparr>getKind = TemporaryDtorsBranch, getStmt = Some 30\<rparr>\<rparr>"
  by (simp add: dtorCFG_def)

lemma wf_dtorContext: "wf_context listEnvironment (tracingAnalysis builtin) dtorContext"
  by (simp add: wf_context_def wf_edges_def wf_terminator_def wf_element_def dtorContext_def
      dtorCFG_def plainBlock_def size_CFG_def isTemporaryDtorsBranch_def getTerminatorStmt_def
      listEnvironment_def)

subsection \<open>The join policy\<close>

lemma set_survivingPreds:
  "set (survivingPreds G BS ps) =
     {p. Some p \<in> set ps \<and> \<not> hasNoReturnElement (Blocks G ! p) \<and> BS ! p \<noteq> None}"
  by (induction G BS ps rule: survivingPreds.induct) auto

text \<open>The loop with its accumulator is a left fold of \<open>joinInto\<close> over the states of the
  surviving predecessors.\<close>

lemma joinPredStates_survivors:
  assumes "\<forall>p. Some p \<in> set ps \<longrightarrow> p < length (Blocks G) \<and> p < length BS"
  shows "joinPredStates E A G BS ps MaybeState =
     Inr (case MaybeState of
            None \<Rightarrow> (case map (\<lambda>p. the (BS ! p)) (survivingPreds G BS ps) of
                       [] \<Rightarrow> None
                     | State # rest \<Rightarrow> Some (foldl (joinInto E A) State rest))
          | Some State \<Rightarrow>
              Some (foldl (joinInto E A) State (map (\<lambda>p. the (BS ! p)) (survivingPreds G BS ps))))"
  using assms
proof (induction ps arbitrary: MaybeState)
  case Nil
  show ?case by (simp split: option.splits)
next
  case (Cons a ps)
  then have IH: "\<And>M. joinPredStates E A G BS ps M =
     Inr (case M of
            None \<Rightarrow> (case map (\<lambda>p. the (BS ! p)) (survivingPreds G BS ps) of
                       [] \<Rightarrow> None
                     | State # rest \<Rightarrow> Some (foldl (joinInto E A) State rest))
          | Some State \<Rightarrow>
              Some (foldl (joinInto E A) State (map (\<lambda>p. the (BS ! p)) (survivingPreds G BS ps))))"
    by simp
  show ?case
  proof (cases a)
    case None
    then show ?thesis by (cases MaybeState) (simp_all add: IH)
  next
    case (Some p)
    with Cons.prems have "p < length (Blocks G)" "p < length BS" by auto
    with Some show ?thesis
      by (cases MaybeState; cases "BS ! p")
         (simp_all add: IH getBlock_def getSlot_def)
  qed
qed

lemma computeBlockInputState_joined:
  assumes "prunedPreds iter CFCtx Block = Inr Preds1"
    and "\<forall>p. Some p \<in> set Preds1 \<longrightarrow> p < length (Blocks (getCFG CFCtx)) \<and> p < length BS"
  shows "computeBlockInputState iter E CFCtx BS Block InitEnv A =
     Inr (joinedState E A \<lparr>Lattice = typeErasedInitialElement A, Env = InitEnv\<rparr>
            (map (\<lambda>p. the (BS ! p)) (survivingPreds (getCFG CFCtx) BS Preds1)))"
  using assms
  by (simp add: computeBlockInputState_def joinPredStates_survivors joinedState_def
      split: list.splits)

lemma prunedPreds_subset:
  assumes "prunedPreds iter CFCtx Block = Inr Preds1" and "denseSetOrder iter"
  shows "set Preds1 \<subseteq> set (Preds Block)"
  using assms
  by (auto simp: prunedPreds_def denseSetOrder_def Let_def
      split: if_splits list.splits option.splits sum.splits)

lemma prunedPreds_defined:
  assumes "wf_terminator CFCtx Block"
    and "\<forall>c. Some c \<in> set (Succs Block) \<longrightarrow> c < size_CFG (getCFG CFCtx)"
  shows "\<exists>Preds1. prunedPreds iter CFCtx Block = Inr Preds1"
  using assms
  by (auto simp: prunedPreds_def wf_terminator_def getBlock_def size_CFG_def Let_def
      split: if_splits list.splits option.splits sum.splits)

text \<open>
  Claim C3.  For a block of a well-formed context (the contract stated by the
  assertions of the file), a store with one slot per block and any iteration order of
  the predecessor set, \<open>computeBlockInputState\<close> returns a state and does not fail.
  When no predecessor that is left after the pruning survives the skipping (none is
  non-null, free of a no-return element and set in the store), the returned state is
  the plugin's initial lattice element paired with the caller's initial environment.
\<close>

theorem computeBlockInputState_total:
  assumes "wf_context E A CFCtx" and "Block \<in> set (Blocks (getCFG CFCtx))"
    and "length BS = size_CFG (getCFG CFCtx)" and "denseSetOrder iter"
  shows "\<exists>State Preds1.
           prunedPreds iter CFCtx Block = Inr Preds1 \<and>
           computeBlockInputState iter E CFCtx BS Block InitEnv A = Inr State \<and>
           (survivingPreds (getCFG CFCtx) BS Preds1 = [] \<longrightarrow>
              State = \<lparr>Lattice = typeErasedInitialElement A, Env = InitEnv\<rparr>)"
proof -
  from assms(1,2) have wt: "wf_terminator CFCtx Block"
    and succs: "\<forall>c. Some c \<in> set (Succs Block) \<longrightarrow> c < size_CFG (getCFG CFCtx)"
    and preds: "\<forall>p. Some p \<in> set (Preds Block) \<longrightarrow> p < size_CFG (getCFG CFCtx)"
    by (auto simp: wf_context_def wf_edges_def)
  from prunedPreds_defined [OF wt succs]
  obtain Preds1 where P: "prunedPreds iter CFCtx Block = Inr Preds1" by blast
  from prunedPreds_subset [OF P assms(4)] preds assms(3)
  have range: "\<forall>p. Some p \<in> set Preds1 \<longrightarrow>
      p < length (Blocks (getCFG CFCtx)) \<and> p < length BS"
    by (auto simp: size_CFG_def)
  from computeBlockInputState_joined [OF P range, of E InitEnv A] P
  show ?thesis by (auto simp: joinedState_def)
qed

theorem computeBlockInputState_total_witness:
  "computeBlockInputState remdups listEnvironment dtorContext (replicate 9 None)
     (Blocks dtorCFG ! 4) [(1, 2)] (tracingAnalysis False) = Inr \<lparr>Lattice = [], Env = [(1, 2)]\<rparr>"
proof -
  have B: "Blocks dtorCFG ! 4 \<in> set (Blocks (getCFG dtorContext))"
    by (simp add: dtorContext_def dtorCFG_def)
  have L: "length (replicate 9 None :: (Stmt list, (nat \<times> nat) list) BlockStates)
             = size_CFG (getCFG dtorContext)"
    by (simp add: dtorContext_def dtorCFG_def size_CFG_def)
  have P: "prunedPreds remdups dtorContext (Blocks dtorCFG ! 4) = Inr [Some 2]"
    by (simp add: Blocks_dtorCFG_nth prunedPreds_def isTemporaryDtorsBranch_def getBlock_def
        getTerminatorStmt_def dtorContext_def dtorCFG_def plainBlock_def)
  from computeBlockInputState_total [OF wf_dtorContext [of False] B L denseSetOrder_remdups,
      where InitEnv = "[(1, 2)]"] P
  show ?thesis by (simp add: tracingAnalysis_def)
qed

text \<open>
  Claim C4, as amended.  Of the predecessors that are left after the pruning of the
  temporary-destructor case (\<open>Preds1\<close>), one contributes to the join if and only if it
  is not null, has no no-return element and has a set slot in the store; the input
  state is the state of the first survivor with the state of every later survivor
  merged into it by \<open>joinTypeErased\<close> and \<open>Environment::join\<close>, in iteration order, and
  the initial state when there is no survivor.
\<close>

theorem computeBlockInputState_joins_survivors:
  assumes "prunedPreds iter CFCtx Block = Inr Preds1"
    and "\<forall>p. Some p \<in> set Preds1 \<longrightarrow> p < size_CFG (getCFG CFCtx) \<and> p < length BS"
  shows "computeBlockInputState iter E CFCtx BS Block InitEnv A =
           Inr (joinedState E A \<lparr>Lattice = typeErasedInitialElement A, Env = InitEnv\<rparr>
                  (map (\<lambda>p. the (BS ! p)) (survivingPreds (getCFG CFCtx) BS Preds1))) \<and>
         (\<forall>p. p \<in> set (survivingPreds (getCFG CFCtx) BS Preds1) \<longleftrightarrow>
            Some p \<in> set Preds1 \<and> \<not> hasNoReturnElement (Blocks (getCFG CFCtx) ! p) \<and>
            BS ! p \<noteq> None)"
proof
  from assms(2) have "\<forall>p. Some p \<in> set Preds1 \<longrightarrow>
      p < length (Blocks (getCFG CFCtx)) \<and> p < length BS"
    by (simp add: size_CFG_def)
  from computeBlockInputState_joined [OF assms(1) this]
  show "computeBlockInputState iter E CFCtx BS Block InitEnv A =
           Inr (joinedState E A \<lparr>Lattice = typeErasedInitialElement A, Env = InitEnv\<rparr>
                  (map (\<lambda>p. the (BS ! p)) (survivingPreds (getCFG CFCtx) BS Preds1)))" .
qed (simp add: set_survivingPreds)

lemma prunedPreds_exit:
  "prunedPreds remdups dtorContext (Blocks dtorCFG ! 0) = Inr [Some 6, Some 8]"
  by (simp add: prunedPreds_def isTemporaryDtorsBranch_def dtorCFG_def plainBlock_def)

theorem computeBlockInputState_joins_survivors_witness:
  "computeBlockInputState remdups listEnvironment dtorContext
     [None, None, None, None, None, None, Some \<lparr>Lattice = [60], Env = [(1, 1), (2, 2)]\<rparr>, None,
      Some \<lparr>Lattice = [80], Env = [(2, 2), (3, 3)]\<rparr>]
     (Blocks dtorCFG ! 0) [] (tracingAnalysis False) = Inr \<lparr>Lattice = [60, 80], Env = [(2, 2)]\<rparr>"
  using computeBlockInputState_joins_survivors [OF prunedPreds_exit,
      where E = listEnvironment and A = "tracingAnalysis False" and InitEnv = "[]"
      and BS = "[None, None, None, None, None, None, Some \<lparr>Lattice = [60], Env = [(1, 1), (2, 2)]\<rparr>,
        None, Some \<lparr>Lattice = [80], Env = [(2, 2), (3, 3)]\<rparr>]"]
  by (simp add: dtorContext_def dtorCFG_def plainBlock_def size_CFG_def joinedState_def
      joinInto_def tracingAnalysis_def listEnvironment_def)

text \<open>
  Claim C4 as stated fails: B3 is a predecessor of B4 in \<open>dtorCFG\<close>, it is not null, has
  no no-return element and its slot is set, yet the input state of B4 is the state of
  B2 alone.  B3 was erased from the predecessor set by the temporary-destructor case.
\<close>

theorem pruned_predecessor_not_joined:
  "Some 3 \<in> set (Preds (Blocks dtorCFG ! 4)) \<and>
   \<not> hasNoReturnElement (Blocks dtorCFG ! 3) \<and>
   dtorStates ! 3 = Some \<lparr>Lattice = [10, 30], Env = [(0, 30), (0, 10)]\<rparr> \<and>
   dtorStates ! 2 = Some \<lparr>Lattice = [10, 20], Env = [(0, 20), (0, 10)]\<rparr> \<and>
   computeBlockInputState remdups listEnvironment dtorContext dtorStates
     (Blocks dtorCFG ! 4) [] (tracingAnalysis False) =
     Inr \<lparr>Lattice = [10, 20], Env = [(0, 20), (0, 10)]\<rparr>"
  by (simp add: Blocks_dtorCFG_nth computeBlockInputState_def prunedPreds_def
      isTemporaryDtorsBranch_def getTerminatorStmt_def getBlock_def getSlot_def dtorContext_def
      dtorCFG_def plainBlock_def dtorStates_def)

text \<open>
  Claim C5.  Let the target block have a temporary-destructor terminator and a first
  successor \<open>y\<close> with a no-return element, and let the statement-to-block map send the
  terminator statement to block \<open>x\<close>.  Then the input state is the join over the
  survivors of the predecessor set without \<open>x\<close>: \<open>x\<close> is not among them, and every other
  predecessor that is not null, has no no-return element and has a set slot is.
\<close>

theorem computeBlockInputState_prunes_dtor_predecessor:
  assumes "isTemporaryDtorsBranch (getTerminator Block)"
    and "Succs Block = Some y # rest" and "y < size_CFG (getCFG CFCtx)"
    and "hasNoReturnElement (Blocks (getCFG CFCtx) ! y)"
    and "getTerminatorStmt Block = Some S" and "getStmtToBlock CFCtx S = Some x"
    and "\<forall>p. Some p \<in> set (Preds Block) \<longrightarrow> p < size_CFG (getCFG CFCtx) \<and> p < length BS"
    and "denseSetOrder iter"
  shows "computeBlockInputState iter E CFCtx BS Block InitEnv A =
           Inr (joinedState E A \<lparr>Lattice = typeErasedInitialElement A, Env = InitEnv\<rparr>
                  (map (\<lambda>p. the (BS ! p))
                     (survivingPreds (getCFG CFCtx) BS (removeAll (Some x) (iter (Preds Block)))))) \<and>
         x \<notin> set (survivingPreds (getCFG CFCtx) BS (removeAll (Some x) (iter (Preds Block)))) \<and>
         (\<forall>p. Some p \<in> set (Preds Block) \<and> p \<noteq> x \<and>
              \<not> hasNoReturnElement (Blocks (getCFG CFCtx) ! p) \<and> BS ! p \<noteq> None \<longrightarrow>
              p \<in> set (survivingPreds (getCFG CFCtx) BS (removeAll (Some x) (iter (Preds Block)))))"
proof -
  from assms(1-6) have P: "prunedPreds iter CFCtx Block = Inr (removeAll (Some x) (iter (Preds Block)))"
    by (simp add: prunedPreds_def getBlock_def size_CFG_def)
  from assms(8) have S: "set (iter (Preds Block)) = set (Preds Block)"
    by (simp add: denseSetOrder_def)
  from assms(7) S have "\<forall>p. Some p \<in> set (removeAll (Some x) (iter (Preds Block))) \<longrightarrow>
      p < length (Blocks (getCFG CFCtx)) \<and> p < length BS"
    by (simp add: size_CFG_def)
  from computeBlockInputState_joined [OF P this, of E InitEnv A] S
  show ?thesis by (simp add: set_survivingPreds)
qed

theorem computeBlockInputState_prunes_dtor_predecessor_witness:
  "computeBlockInputState remdups listEnvironment dtorContext dtorStates
     (Blocks dtorCFG ! 4) [] (tracingAnalysis False) = Inr (the (dtorStates ! 2)) \<and>
   3 \<notin> set (survivingPreds dtorCFG dtorStates (removeAll (Some 3) (remdups [Some 2, Some 3]))) \<and>
   2 \<in> set (survivingPreds dtorCFG dtorStates (removeAll (Some 3) (remdups [Some 2, Some 3])))"
  using computeBlockInputState_prunes_dtor_predecessor
      [where Block = "Blocks dtorCFG ! 4" and CFCtx = dtorContext and y = 5
      and rest = "[Some 6]" and S = 30 and x = 3 and BS = dtorStates and iter = remdups
      and E = listEnvironment and InitEnv = "[]" and A = "tracingAnalysis False"]
  by (simp add: Blocks_dtorCFG_nth denseSetOrder_remdups isTemporaryDtorsBranch_def
      getTerminatorStmt_def dtorContext_def size_CFG_def joinedState_def)
     (simp add: dtorCFG_def plainBlock_def dtorStates_def)

subsection \<open>The transfer engine\<close>

lemma thenElement_Inl: "thenElement E CFCtx BS A H (Inl e) Element = Inl e"
  by (simp add: thenElement_def)

lemma thenElement_Inr:
  "thenElement E CFCtx BS A H (Inr (State, obs)) Element =
     transferElement E CFCtx BS A H Element State obs"
  by (simp add: thenElement_def)

lemma foldl_thenElement_Inl:
  "foldl (thenElement E CFCtx BS A H) (Inl e) es = Inl e"
  by (induction es) (simp_all add: thenElement_Inl)

lemma transferElements_foldl:
  "transferElements E CFCtx BS A H es State obs =
     foldl (thenElement E CFCtx BS A H) (Inr (State, obs)) es"
proof (induction es arbitrary: State obs)
  case Nil
  show ?case by simp
next
  case (Cons Element es)
  show ?case
  proof (cases "transferElement E CFCtx BS A H Element State obs")
    case (Inl e)
    then show ?thesis by (simp add: thenElement_Inr foldl_thenElement_Inl)
  next
    case (Inr r)
    obtain State1 obs1 where r: "r = (State1, obs1)" by (cases r)
    from Inr r Cons.IH [of State1 obs1] show ?thesis by (simp add: thenElement_Inr)
  qed
qed

lemma transferElement_Statement:
  "transferElement E CFCtx BS A H (Statement (Some S)) State1 obs1 =
     Inr (pluginStep A S (builtinStep E A CFCtx BS S State1),
          observerStep H S (pluginStep A S (builtinStep E A CFCtx BS S State1)) obs1)"
  by (cases H)
     (simp_all add: transferElement_def transferCFGStmt_def pluginStep_def builtinStep_def
        observerStep_def Let_def split_beta)

text \<open>
  Claim C6.  \<open>transferBlock\<close> computes the input state and then goes through the
  elements of the block from left to right, each element starting from the state (and
  the observer's record) that the element before it left; a failure stops the run.  For
  a statement element the new state is the plugin's transfer applied to the result of
  the built-in transfer, which is applied exactly when the analysis sets the flag
  (\<open>builtinStep\<close>), and the observer, when supplied, is then applied to the statement and
  this new state (\<open>observerStep\<close>).
\<close>

theorem transferBlock_in_declaration_order:
  "transferBlock iter E CFCtx BS Block InitEnv A H obs =
     (case computeBlockInputState iter E CFCtx BS Block InitEnv A of
        Inl e \<Rightarrow> Inl e
      | Inr State \<Rightarrow> foldl (thenElement E CFCtx BS A H) (Inr (State, obs)) (Elements Block)) \<and>
   transferElement E CFCtx BS A H (Statement (Some S)) State1 obs1 =
     Inr (pluginStep A S (builtinStep E A CFCtx BS S State1),
          observerStep H S (pluginStep A S (builtinStep E A CFCtx BS S State1)) obs1)"
proof
  show "transferBlock iter E CFCtx BS Block InitEnv A H obs =
     (case computeBlockInputState iter E CFCtx BS Block InitEnv A of
        Inl e \<Rightarrow> Inl e
      | Inr State \<Rightarrow> foldl (thenElement E CFCtx BS A H) (Inr (State, obs)) (Elements Block))"
    by (simp add: transferBlock_def transferElements_foldl split: sum.splits)
qed (rule transferElement_Statement)

theorem transferBlock_in_declaration_order_witness:
  "transferBlock remdups listEnvironment dtorContext []
     (plainBlock [Statement (Some 10), OtherElement, Statement (Some 20)] [] []) []
     (tracingAnalysis True) (Some (\<lambda>S State log. log @ [(S, State)])) [] =
   Inr (\<lparr>Lattice = [10, 20], Env = [(0, 20), (21, 20), (0, 10), (11, 10)]\<rparr>,
        [(10, \<lparr>Lattice = [10], Env = [(0, 10), (11, 10)]\<rparr>),
         (20, \<lparr>Lattice = [10, 20], Env = [(0, 20), (21, 20), (0, 10), (11, 10)]\<rparr>)])"
proof -
  have I: "computeBlockInputState remdups listEnvironment dtorContext []
     (plainBlock [Statement (Some 10), OtherElement, Statement (Some 20)] [] []) []
     (tracingAnalysis True) = Inr \<lparr>Lattice = [], Env = []\<rparr>"
    by (simp add: computeBlockInputState_def prunedPreds_def plainBlock_def
        isTemporaryDtorsBranch_def tracingAnalysis_def)
  have O: "transferElement listEnvironment dtorContext [] (tracingAnalysis True)
      (Some (\<lambda>S State log. log @ [(S, State)])) OtherElement State obs = Inr (State, obs)"
    for State :: "(Stmt list, (nat \<times> nat) list) TypeErasedDataflowAnalysisState"
    and obs :: "(nat \<times> (Stmt list, (nat \<times> nat) list) TypeErasedDataflowAnalysisState) list"
    by (simp add: transferElement_def)
  have B: "Elements (plainBlock [Statement (Some 10), OtherElement, Statement (Some 20)] [] [])
     = [Statement (Some 10), OtherElement, Statement (Some 20)]"
    by (simp add: plainBlock_def)
  from transferBlock_in_declaration_order [where E = listEnvironment and CFCtx = dtorContext
      and BS = "[]" and A = "tracingAnalysis True" and H = "Some (\<lambda>S State log. log @ [(S, State)])"
      and iter = remdups and InitEnv = "[]" and obs = "[]"
      and Block = "plainBlock [Statement (Some 10), OtherElement, Statement (Some 20)] [] []"]
  have "transferBlock remdups listEnvironment dtorContext []
     (plainBlock [Statement (Some 10), OtherElement, Statement (Some 20)] [] []) []
     (tracingAnalysis True) (Some (\<lambda>S State log. log @ [(S, State)])) [] =
     foldl (thenElement listEnvironment dtorContext [] (tracingAnalysis True)
              (Some (\<lambda>S State log. log @ [(S, State)])))
       (Inr (\<lparr>Lattice = [], Env = []\<rparr>, []))
       [Statement (Some 10), OtherElement, Statement (Some 20)]"
    by (simp add: I B)
  also have "\<dots> =
   Inr (\<lparr>Lattice = [10, 20], Env = [(0, 20), (21, 20), (0, 10), (11, 10)]\<rparr>,
        [(10, \<lparr>Lattice = [10], Env = [(0, 10), (11, 10)]\<rparr>),
         (20, \<lparr>Lattice = [10, 20], Env = [(0, 20), (21, 20), (0, 10), (11, 10)]\<rparr>)])"
    by (simp add: thenElement_Inr transferElement_Statement O)
       (simp add: pluginStep_def builtinStep_def observerStep_def tracingAnalysis_def
          listEnvironment_def)
  finally show ?thesis .
qed

text \<open>
  Claim C7.  Let the receiver location resolve and the initializer element hold an
  initializer with an init expression (the contract of the assertions that precede the
  two checks).  If the environment has no storage location for the init expression,
  or has one but no value at it, \<open>transferCFGInitializer\<close> returns the state it was
  given, unchanged, and does not fail; and so the transfer of the initializer element
  in \<open>transferBlock\<close> leaves the state (and the observer's record) as it was and the
  run goes on with the next element.
\<close>

theorem transferCFGInitializer_unresolved_noop:
  assumes "getThisPointeeStorageLocation E (Env State) = Some ThisLoc"
    and "CfgInit = Some CtorInit" and "getInit CtorInit = Some InitStmt"
    and "getStorageLocation E (Env State) InitStmt SkipPast_Reference = None \<or>
         (\<exists>InitStmtLoc.
            getStorageLocation E (Env State) InitStmt SkipPast_Reference = Some InitStmtLoc \<and>
            getValue E (Env State) InitStmtLoc = None)"
  shows "transferCFGInitializer E CfgInit State = Inr State \<and>
         transferElement E CFCtx BS A H (Initializer CfgInit) State obs = Inr (State, obs)"
proof -
  from assms have "transferCFGInitializer E CfgInit State = Inr State"
    by (auto simp: transferCFGInitializer_def)
  then show ?thesis by (simp add: transferElement_def)
qed

theorem transferCFGInitializer_unresolved_noop_witness:
  "transferCFGInitializer listEnvironment (Some \<lparr>getInit = Some 200, getMember = None\<rparr>)
     \<lparr>Lattice = [1], Env = [(3, 4)]\<rparr> = Inr \<lparr>Lattice = [1], Env = [(3, 4)]\<rparr> \<and>
   transferCFGInitializer listEnvironment (Some \<lparr>getInit = Some 7, getMember = None\<rparr>)
     \<lparr>Lattice = [1], Env = [(3, 4)]\<rparr> = Inr \<lparr>Lattice = [1], Env = [(3, 4)]\<rparr>"
  using transferCFGInitializer_unresolved_noop [where E = listEnvironment and ThisLoc = 0
      and State = "\<lparr>Lattice = [1], Env = [(3, 4)]\<rparr>" and InitStmt = 200
      and CtorInit = "\<lparr>getInit = Some 200, getMember = None\<rparr>"
      and CfgInit = "Some \<lparr>getInit = Some 200, getMember = None\<rparr>", THEN conjunct1]
    transferCFGInitializer_unresolved_noop [where E = listEnvironment and ThisLoc = 0
      and State = "\<lparr>Lattice = [1], Env = [(3, 4)]\<rparr>" and InitStmt = 7
      and CtorInit = "\<lparr>getInit = Some 7, getMember = None\<rparr>"
      and CfgInit = "Some \<lparr>getInit = Some 7, getMember = None\<rparr>", THEN conjunct1]
  by (simp add: listEnvironment_def)

text \<open>
  Claim C8.  Let the receiver location, the init expression's location and the value
  at that location resolve, and let the initializer name a member.  If the member has
  reference type, \<open>transferCFGInitializer\<close> sets the member's location under the
  receiver to a new reference value on the init expression's location, registered with
  \<open>takeOwnership\<close>; otherwise it sets it to the init expression's value.  Nothing else
  of the state changes.  (\<open>transferBlock\<close> runs this step for the initializer elements
  of an analysis that enables the built-in transfer.)
\<close>

theorem transferCFGInitializer_resolved:
  assumes "getThisPointeeStorageLocation E (Env State) = Some ThisLoc"
    and "CfgInit = Some CtorInit" and "getInit CtorInit = Some InitStmt"
    and "getStorageLocation E (Env State) InitStmt SkipPast_Reference = Some InitStmtLoc"
    and "getValue E (Env State) InitStmtLoc = Some InitStmtVal"
    and "getMember CtorInit = Some Member"
  shows "transferCFGInitializer E CfgInit State =
     Inr (State\<lparr>Env :=
        (if isReferenceType Member
         then setValue E (takeOwnership E (Env State) (ReferenceValue E InitStmtLoc))
                (getChild E ThisLoc Member) (ReferenceValue E InitStmtLoc)
         else setValue E (Env State) (getChild E ThisLoc Member) InitStmtVal)\<rparr>)"
  using assms by (auto simp: transferCFGInitializer_def Let_def)

theorem transferCFGInitializer_resolved_witness:
  "transferCFGInitializer listEnvironment
     (Some \<lparr>getInit = Some 7, getMember = Some \<lparr>fieldId = 2, isReferenceType = True\<rparr>\<rparr>)
     \<lparr>Lattice = [1], Env = [(8, 42)]\<rparr> = Inr \<lparr>Lattice = [1], Env = [(30, 1008), (8, 42)]\<rparr> \<and>
   transferCFGInitializer listEnvironment
     (Some \<lparr>getInit = Some 7, getMember = Some \<lparr>fieldId = 2, isReferenceType = False\<rparr>\<rparr>)
     \<lparr>Lattice = [1], Env = [(8, 42)]\<rparr> = Inr \<lparr>Lattice = [1], Env = [(30, 42), (8, 42)]\<rparr>"
  using transferCFGInitializer_resolved [where E = listEnvironment and ThisLoc = 0
      and State = "\<lparr>Lattice = [1], Env = [(8, 42)]\<rparr>" and InitStmt = 7 and InitStmtLoc = 8
      and InitStmtVal = 42 and Member = "\<lparr>fieldId = 2, isReferenceType = True\<rparr>"
      and CtorInit = "\<lparr>getInit = Some 7, getMember = Some \<lparr>fieldId = 2, isReferenceType = True\<rparr>\<rparr>"
      and CfgInit = "Some \<lparr>getInit = Some 7, getMember = Some \<lparr>fieldId = 2, isReferenceType = True\<rparr>\<rparr>"]
    transferCFGInitializer_resolved [where E = listEnvironment and ThisLoc = 0
      and State = "\<lparr>Lattice = [1], Env = [(8, 42)]\<rparr>" and InitStmt = 7 and InitStmtLoc = 8
      and InitStmtVal = 42 and Member = "\<lparr>fieldId = 2, isReferenceType = False\<rparr>"
      and CtorInit = "\<lparr>getInit = Some 7, getMember = Some \<lparr>fieldId = 2, isReferenceType = False\<rparr>\<rparr>"
      and CfgInit = "Some \<lparr>getInit = Some 7, getMember = Some \<lparr>fieldId = 2, isReferenceType = False\<rparr>\<rparr>"]
  by (simp add: listEnvironment_def)

subsection \<open>One step of the driver\<close>

lemma processBlock_B5:
  "processBlock remdups fifoWorklist listEnvironment dtorContext (tracingAnalysis False) [] 5 [6]
     (dtorStates[4 := Some \<lparr>Lattice = [10, 20], Env = [(0, 20), (0, 10)]\<rparr>]) =
   Inr ([6], dtorStates[4 := Some \<lparr>Lattice = [10, 20], Env = [(0, 20), (0, 10)]\<rparr>,
                        5 := Some \<lparr>Lattice = [10, 20, 50], Env = [(0, 50), (0, 20), (0, 10)]\<rparr>])"
  by (simp add: processBlock_def transferBlock_def computeBlockInputState_def prunedPreds_def
      transferElement_def transferCFGStmt_def isTemporaryDtorsBranch_def getBlock_def getSlot_def
      dtorContext_def dtorCFG_def plainBlock_def dtorStates_def tracingAnalysis_def
      listEnvironment_def fifoWorklist_def Let_def)

lemma processBlock_B6:
  "processBlock remdups fifoWorklist listEnvironment dtorContext (tracingAnalysis False) [] 6 []
     (dtorStates[4 := Some \<lparr>Lattice = [10, 20], Env = [(0, 20), (0, 10)]\<rparr>]) =
   Inr ([0], dtorStates[4 := Some \<lparr>Lattice = [10, 20], Env = [(0, 20), (0, 10)]\<rparr>,
                        6 := Some \<lparr>Lattice = [10, 20, 60], Env = [(0, 60), (0, 20), (0, 10)]\<rparr>])"
  by (simp add: processBlock_def transferBlock_def computeBlockInputState_def prunedPreds_def
      transferElement_def transferCFGStmt_def isTemporaryDtorsBranch_def getBlock_def getSlot_def
      dtorContext_def dtorCFG_def plainBlock_def dtorStates_def tracingAnalysis_def
      listEnvironment_def fifoWorklist_def enqueueBlock_def Let_def)

text \<open>
  Claim C9.  In a step of the driver that does not fail, the worklist after the step is
  the worklist after the dequeue with the successors of the block enqueued when the
  state of the block has changed and the block has no no-return element; in every
  other case it is the worklist after the dequeue, untouched.  The state has changed
  (\<open>stateChanged\<close>) when what the slot held before differs from the new state: the slot
  was unset, or it held a state that is not both equal to the new one by the plugin's
  \<open>isEqualTypeErased\<close> and equivalent to it by the environment's \<open>equivalentTo\<close>.  So
  a block with a no-return element never has its successors enqueued by a step.
\<close>

theorem processBlock_enqueues_on_change_only:
  assumes "processBlock iter W E CFCtx A InitEnv b Worklist BlockStates = Inr (Worklist1, BlockStates1)"
  shows "\<exists>Block NewBlockState u.
           getBlock (getCFG CFCtx) b = Inr Block \<and> b < length BlockStates \<and>
           transferBlock iter E CFCtx BlockStates Block InitEnv A
             (None :: (Stmt \<Rightarrow> ('l, 'e) TypeErasedDataflowAnalysisState \<Rightarrow> unit \<Rightarrow> unit) option) ()
             = Inr (NewBlockState, u) \<and>
           Worklist1 =
             (if stateChanged E A (BlockStates ! b) NewBlockState \<and> \<not> hasNoReturnElement Block
              then enqueueSuccessors W Worklist Block else Worklist)"
  using assms
  by (auto simp: processBlock_def getSlot_def stateChanged_def Let_def
      split: sum.splits option.splits if_splits)

theorem processBlock_enqueues_on_change_only_witness:
  "\<exists>Block NewBlockState u.
     getBlock (getCFG dtorContext) 5 = Inr Block \<and> hasNoReturnElement Block \<and>
     transferBlock remdups listEnvironment dtorContext
       (dtorStates[4 := Some \<lparr>Lattice = [10, 20], Env = [(0, 20), (0, 10)]\<rparr>]) Block []
       (tracingAnalysis False)
       (None :: (Stmt \<Rightarrow> (Stmt list, (nat \<times> nat) list) TypeErasedDataflowAnalysisState \<Rightarrow> unit \<Rightarrow> unit) option) ()
       = Inr (NewBlockState, u) \<and>
     [6] = (if stateChanged listEnvironment (tracingAnalysis False)
                 ((dtorStates[4 := Some \<lparr>Lattice = [10, 20], Env = [(0, 20), (0, 10)]\<rparr>]) ! 5)
                 NewBlockState \<and> \<not> hasNoReturnElement Block
            then enqueueSuccessors fifoWorklist [6] Block else [6])"
  using processBlock_enqueues_on_change_only [OF processBlock_B5]
  by (auto simp: getBlock_def dtorContext_def dtorCFG_def)

text \<open>
  Claim C10.  The candidate state is computed by \<open>transferBlock\<close> from the store as it
  was before the step; \<open>transferBlock\<close> reads the store and returns a state only.  The
  store after the step has the same length, agrees with the store before the step at
  every block other than the dequeued one, and is either the store before the step or
  that store with the candidate written to the slot of the dequeued block.
\<close>

theorem processBlock_frame:
  assumes "processBlock iter W E CFCtx A InitEnv b Worklist BlockStates = Inr (Worklist1, BlockStates1)"
  shows "length BlockStates1 = length BlockStates \<and>
         (\<forall>i. i \<noteq> b \<longrightarrow> BlockStates1 ! i = BlockStates ! i) \<and>
         (BlockStates1 = BlockStates \<or>
          (\<exists>Block NewBlockState u.
             getBlock (getCFG CFCtx) b = Inr Block \<and>
             transferBlock iter E CFCtx BlockStates Block InitEnv A
               (None :: (Stmt \<Rightarrow> ('l, 'e) TypeErasedDataflowAnalysisState \<Rightarrow> unit \<Rightarrow> unit) option) ()
               = Inr (NewBlockState, u) \<and>
             BlockStates1 = BlockStates[b := Some NewBlockState]))"
  using assms
  by (auto simp: processBlock_def getSlot_def Let_def
      split: sum.splits option.splits if_splits)

theorem processBlock_frame_witness:
  "length (dtorStates[4 := Some \<lparr>Lattice = [10, 20], Env = [(0, 20), (0, 10)]\<rparr>,
                      6 := Some \<lparr>Lattice = [10, 20, 60], Env = [(0, 60), (0, 20), (0, 10)]\<rparr>]) = 9 \<and>
   map (\<lambda>i. (dtorStates[4 := Some \<lparr>Lattice = [10, 20], Env = [(0, 20), (0, 10)]\<rparr>,
                  6 := Some \<lparr>Lattice = [10, 20, 60], Env = [(0, 60), (0, 20), (0, 10)]\<rparr>]) ! i)
     [0, 1, 2, 3, 4, 5, 7, 8] =
   map (\<lambda>i. (dtorStates[4 := Some \<lparr>Lattice = [10, 20], Env = [(0, 20), (0, 10)]\<rparr>]) ! i)
     [0, 1, 2, 3, 4, 5, 7, 8]"
  using processBlock_frame [OF processBlock_B6]
  by (simp add: dtorStates_def)

subsection \<open>The engine does not fail on inputs that meet its contract\<close>

lemma transferCFGInitializer_defined:
  assumes "\<forall>env. getThisPointeeStorageLocation E env \<noteq> None"
    and "CfgInit = Some CtorInit" and "getInit CtorInit \<noteq> None" and "getMember CtorInit \<noteq> None"
  shows "\<exists>State1. transferCFGInitializer E CfgInit State = Inr State1"
proof -
  from assms(1) have "getThisPointeeStorageLocation E (Env State) \<noteq> None" by blast
  then obtain ThisLoc where "getThisPointeeStorageLocation E (Env State) = Some ThisLoc"
    by blast
  with assms(2-4) show ?thesis
    by (auto simp: transferCFGInitializer_def Let_def split: option.splits)
qed

lemma transferElement_defined:
  assumes "wf_element E A Element"
  shows "\<exists>r. transferElement E CFCtx BS A H Element State obs = Inr r"
proof (cases Element)
  case (Statement CfgStmt)
  with assms show ?thesis
    by (auto simp: wf_element_def transferElement_def transferCFGStmt_def Let_def)
next
  case (Initializer CfgInit)
  show ?thesis
  proof (cases "applyBuiltinTransfer A")
    case True
    with assms Initializer obtain CtorInit where "CfgInit = Some CtorInit"
      "getInit CtorInit \<noteq> None" "getMember CtorInit \<noteq> None"
      "\<forall>env. getThisPointeeStorageLocation E env \<noteq> None"
      by (auto simp: wf_element_def split: option.splits)
    from transferCFGInitializer_defined [OF this(4) this(1-3), of State]
    show ?thesis using Initializer True by (auto simp: transferElement_def)
  next
    case False
    with Initializer show ?thesis by (simp add: transferElement_def)
  qed
next
  case OtherElement
  then show ?thesis by (simp add: transferElement_def)
qed

lemma transferElements_defined:
  assumes "\<forall>Element \<in> set es. wf_element E A Element"
  shows "\<exists>r. transferElements E CFCtx BS A H es State obs = Inr r"
  using assms
proof (induction es arbitrary: State obs)
  case Nil
  show ?case by simp
next
  case (Cons Element es)
  then have "wf_element E A Element" by simp
  from transferElement_defined [OF this, of CFCtx BS H State obs]
  obtain State1 obs1 where "transferElement E CFCtx BS A H Element State obs = Inr (State1, obs1)"
    by (metis surj_pair)
  with Cons.IH [of State1 obs1] Cons.prems show ?case by simp
qed

lemma computeBlockInputState_defined:
  assumes "wf_context E A CFCtx" and "Block \<in> set (Blocks (getCFG CFCtx))"
    and "length BS = size_CFG (getCFG CFCtx)" and "denseSetOrder iter"
  shows "\<exists>State. computeBlockInputState iter E CFCtx BS Block InitEnv A = Inr State"
proof -
  from assms(1,2) have wt: "wf_terminator CFCtx Block"
    and succs: "\<forall>c. Some c \<in> set (Succs Block) \<longrightarrow> c < size_CFG (getCFG CFCtx)"
    and preds: "\<forall>p. Some p \<in> set (Preds Block) \<longrightarrow> p < size_CFG (getCFG CFCtx)"
    by (auto simp: wf_context_def wf_edges_def)
  from prunedPreds_defined [OF wt succs]
  obtain Preds1 where P: "prunedPreds iter CFCtx Block = Inr Preds1" by blast
  from prunedPreds_subset [OF P assms(4)] preds assms(3)
  have range: "\<forall>p. Some p \<in> set Preds1 \<longrightarrow>
      p < length (Blocks (getCFG CFCtx)) \<and> p < length BS"
    by (auto simp: size_CFG_def)
  from computeBlockInputState_joined [OF P range, of E InitEnv A]
  show ?thesis by blast
qed

lemma transferBlock_defined:
  assumes "wf_context E A CFCtx" and "Block \<in> set (Blocks (getCFG CFCtx))"
    and "length BS = size_CFG (getCFG CFCtx)" and "denseSetOrder iter"
  shows "\<exists>r. transferBlock iter E CFCtx BS Block InitEnv A H obs = Inr r"
proof -
  from computeBlockInputState_defined [OF assms, of InitEnv]
  obtain State where S: "computeBlockInputState iter E CFCtx BS Block InitEnv A = Inr State"
    by blast
  from assms(1,2) have "\<forall>Element \<in> set (Elements Block). wf_element E A Element"
    by (simp add: wf_context_def)
  from transferElements_defined [OF this, of CFCtx BS H State obs] S
  show ?thesis by (simp add: transferBlock_def)
qed

text \<open>What a step of the driver returns.\<close>

lemma processBlock_cases:
  assumes "processBlock iter W E CFCtx A InitEnv b Worklist BS = Inr (Worklist1, BS1)"
  shows "b < length (Blocks (getCFG CFCtx)) \<and> b < length BS \<and>
         (\<exists>NewBlockState.
            (BS1 = BS \<and> Worklist1 = Worklist \<and> BS ! b \<noteq> None) \<or>
            (BS1 = BS[b := Some NewBlockState] \<and>
             Worklist1 = (if hasNoReturnElement (Blocks (getCFG CFCtx) ! b) then Worklist
                          else enqueueSuccessors W Worklist (Blocks (getCFG CFCtx) ! b))))"
  using assms
  by (auto simp: processBlock_def getSlot_def getBlock_def Let_def
      split: sum.splits option.splits if_splits)

lemma processBlock_defined:
  assumes "wf_context E A CFCtx" and "b < size_CFG (getCFG CFCtx)"
    and "length BS = size_CFG (getCFG CFCtx)" and "denseSetOrder iter"
  shows "\<exists>r. processBlock iter W E CFCtx A InitEnv b Worklist BS = Inr r"
proof -
  from assms(2) have B: "Blocks (getCFG CFCtx) ! b \<in> set (Blocks (getCFG CFCtx))"
    by (simp add: size_CFG_def)
  from transferBlock_defined [OF assms(1) B assms(3,4), of InitEnv
      "None :: (Stmt \<Rightarrow> ('a, 'b) TypeErasedDataflowAnalysisState \<Rightarrow> unit \<Rightarrow> unit) option" "()"]
  obtain New u where "transferBlock iter E CFCtx BS (Blocks (getCFG CFCtx) ! b) InitEnv A
      (None :: (Stmt \<Rightarrow> ('a, 'b) TypeErasedDataflowAnalysisState \<Rightarrow> unit \<Rightarrow> unit) option) ()
      = Inr (New, u)"
    by (metis surj_pair)
  with assms(2,3) show ?thesis
    by (simp add: processBlock_def getBlock_def getSlot_def size_CFG_def Let_def)
qed


subsection \<open>The loop of the driver\<close>

lemma driverInvariant_init:
  assumes wf: "wf_context E A CFCtx"
    and wc: "worklistContract W pending winv (getCFG CFCtx)"
  shows "driverInvariant pending winv (getCFG CFCtx)
           (enqueueSuccessors W (newWorklist W (getCFG CFCtx))
              (Blocks (getCFG CFCtx) ! getEntry (getCFG CFCtx)))
           ((replicate (size_CFG (getCFG CFCtx)) None)[getEntry (getCFG CFCtx) := Some State])"
proof -
  let ?G = "getCFG CFCtx"
  let ?e = "getEntry ?G"
  from wf have e: "?e < size_CFG ?G" and edges: "wf_edges ?G"
    by (simp_all add: wf_context_def)
  from wc have w0: "winv (newWorklist W ?G)" "pending (newWorklist W ?G) = {}"
    by (simp_all add: worklistContract_def)
  from wc w0 have w1: "winv (enqueueSuccessors W (newWorklist W ?G) (Blocks ?G ! ?e))"
    "pending (enqueueSuccessors W (newWorklist W ?G) (Blocks ?G ! ?e)) =
       {c. Some c \<in> set (Succs (Blocks ?G ! ?e))}"
    by (simp_all add: worklistContract_def)
  from e have B: "Blocks ?G ! ?e \<in> set (Blocks ?G)" by (simp add: size_CFG_def)
  have succ_reached: "reached ?G c \<and> c < size_CFG ?G"
    if "Some c \<in> set (Succs (Blocks ?G ! ?e))" for c
  proof
    show "reached ?G c"
      by (rule reached_succ [OF reached_entry e _ that]) simp
    from edges B that show "c < size_CFG ?G" by (auto simp: wf_edges_def)
  qed
  let ?BS = "(replicate (size_CFG ?G) None)[?e := Some State]"
  let ?w = "enqueueSuccessors W (newWorklist W ?G) (Blocks ?G ! ?e)"
  have set_only: "b = ?e" if "b < size_CFG ?G" "?BS ! b \<noteq> None" for b
    using that by (cases "b = ?e") simp_all
  have P2: "length ?BS = size_CFG ?G" by simp
  have P3: "?BS ! ?e \<noteq> None" using e by simp
  have P4: "\<forall>c \<in> pending ?w. reached ?G c \<and> c < size_CFG ?G"
    using w1(2) succ_reached by simp
  have P5: "\<forall>b < size_CFG ?G. ?BS ! b \<noteq> None \<longrightarrow> reached ?G b"
    using set_only reached_entry [of ?G] by blast
  have P6: "\<forall>b < size_CFG ?G. ?BS ! b \<noteq> None \<longrightarrow>
         (b = ?e \<or> \<not> hasNoReturnElement (Blocks ?G ! b)) \<longrightarrow>
         (\<forall>c. Some c \<in> set (Succs (Blocks ?G ! b)) \<longrightarrow> ?BS ! c \<noteq> None \<or> c \<in> pending ?w)"
  proof (intro allI impI)
    fix b c
    assume "b < size_CFG ?G" "?BS ! b \<noteq> None" "Some c \<in> set (Succs (Blocks ?G ! b))"
    with set_only [of b] have "Some c \<in> set (Succs (Blocks ?G ! ?e))" by simp
    with w1(2) show "?BS ! c \<noteq> None \<or> c \<in> pending ?w" by simp
  qed
  from w1(1) P2 P3 P4 P5 P6 show ?thesis
    unfolding driverInvariant_def by blast
qed

lemma driverInvariant_step:
  assumes wf: "wf_context E A CFCtx"
    and wc: "worklistContract W pending winv (getCFG CFCtx)"
    and inv: "driverInvariant pending winv (getCFG CFCtx) w BS"
    and deq: "dequeue W w = Some (b, w1)"
    and step: "processBlock iter W E CFCtx A InitEnv b w1 BS = Inr (w2, BS2)"
  shows "driverInvariant pending winv (getCFG CFCtx) w2 BS2"
proof -
  let ?G = "getCFG CFCtx"
  from wf have edges: "wf_edges ?G" by (simp add: wf_context_def)
  from inv have winv: "winv w" and len: "length BS = size_CFG ?G"
    and entry: "BS ! getEntry ?G \<noteq> None"
    and pend: "\<forall>b \<in> pending w. reached ?G b \<and> b < size_CFG ?G"
    and sound: "\<forall>b < size_CFG ?G. BS ! b \<noteq> None \<longrightarrow> reached ?G b"
    and closed: "\<forall>b < size_CFG ?G. BS ! b \<noteq> None \<longrightarrow>
         (b = getEntry ?G \<or> \<not> hasNoReturnElement (Blocks ?G ! b)) \<longrightarrow>
         (\<forall>c. Some c \<in> set (Succs (Blocks ?G ! b)) \<longrightarrow> BS ! c \<noteq> None \<or> c \<in> pending w)"
    by (simp_all add: driverInvariant_def)
  from wc winv deq have b: "b \<in> pending w" and w1: "winv w1" "pending w1 = pending w - {b}"
    using worklistContract_def [of W pending winv ?G] by (auto split: option.splits)
  from pend b have rb: "reached ?G b" and bs: "b < size_CFG ?G" by auto
  from bs have B: "Blocks ?G ! b \<in> set (Blocks ?G)" by (simp add: size_CFG_def)
  from wc w1 have enq: "winv (enqueueSuccessors W w1 (Blocks ?G ! b))"
    "pending (enqueueSuccessors W w1 (Blocks ?G ! b)) =
       pending w1 \<union> {c. Some c \<in> set (Succs (Blocks ?G ! b))}"
    by (simp_all add: worklistContract_def)
  have succ_ok: "reached ?G c \<and> c < size_CFG ?G"
    if "Some c \<in> set (Succs (Blocks ?G ! b))" "\<not> hasNoReturnElement (Blocks ?G ! b)" for c
  proof
    from that show "reached ?G c" by (intro reached_succ [OF rb bs]) auto
    from edges B that show "c < size_CFG ?G" by (auto simp: wf_edges_def)
  qed
  from processBlock_cases [OF step] obtain New where
    cases: "(BS2 = BS \<and> w2 = w1 \<and> BS ! b \<noteq> None) \<or>
            (BS2 = BS[b := Some New] \<and>
             w2 = (if hasNoReturnElement (Blocks ?G ! b) then w1
                   else enqueueSuccessors W w1 (Blocks ?G ! b)))"
    by blast
  from cases show ?thesis
  proof
    assume u: "BS2 = BS \<and> w2 = w1 \<and> BS ! b \<noteq> None"
    have "BS ! c \<noteq> None \<or> c \<in> pending w1"
      if "BS ! c \<noteq> None \<or> c \<in> pending w" for c
      using that u w1 by (cases "c = b") auto
    with u w1 len entry pend sound closed show ?thesis
      unfolding driverInvariant_def by (simp (no_asm_simp)) blast
  next
    assume c: "BS2 = BS[b := Some New] \<and>
             w2 = (if hasNoReturnElement (Blocks ?G ! b) then w1
                   else enqueueSuccessors W w1 (Blocks ?G ! b))"
    have nth2: "BS2 ! c \<noteq> None \<longleftrightarrow> c = b \<or> BS ! c \<noteq> None" if "c < size_CFG ?G" for c
      using c that len by (cases "c = b") simp_all
    have pend1: "c \<in> pending w2" if "c \<in> pending w" "c \<noteq> b" for c
      using that c w1 enq by (auto split: if_splits)
    have P1: "winv w2" using c w1 enq by (simp split: if_splits)
    have P2: "length BS2 = size_CFG ?G" using c len by simp
    have P3: "BS2 ! getEntry ?G \<noteq> None"
      using c entry len bs by (cases "getEntry ?G = b") simp_all
    have P4: "\<forall>c \<in> pending w2. reached ?G c \<and> c < size_CFG ?G"
      using c w1 enq pend succ_ok by (auto split: if_splits)
    have P5: "\<forall>c < size_CFG ?G. BS2 ! c \<noteq> None \<longrightarrow> reached ?G c"
      using nth2 sound rb by auto
    have P6: "BS2 ! d \<noteq> None \<or> d \<in> pending w2"
      if a: "a < size_CFG ?G" "BS2 ! a \<noteq> None"
        "a = getEntry ?G \<or> \<not> hasNoReturnElement (Blocks ?G ! a)"
        "Some d \<in> set (Succs (Blocks ?G ! a))" for a d
    proof -
      from edges a(1,4) have d: "d < size_CFG ?G"
        by (auto simp: wf_edges_def size_CFG_def)
      show ?thesis
      proof (cases "d = b")
        case True
        with nth2 [OF d] show ?thesis by simp
      next
        case False
        show ?thesis
        proof (cases "BS ! a \<noteq> None")
          case True
          with closed a have "BS ! d \<noteq> None \<or> d \<in> pending w" by blast
          with False nth2 [OF d] pend1 show ?thesis by blast
        next
          case F: False
          with nth2 [OF a(1)] a(2) have ab: "a = b" by simp
          with F entry have "b \<noteq> getEntry ?G" by auto
          with a(3) ab have "\<not> hasNoReturnElement (Blocks ?G ! b)" by simp
          with c enq a(4) ab show ?thesis by simp
        qed
      qed
    qed
    from P1 P2 P3 P4 P5 P6 show ?thesis
      unfolding driverInvariant_def by blast
  qed
qed


lemma fixpointLoop_invariant:
  assumes wf: "wf_context E A CFCtx"
    and wc: "worklistContract W pending winv (getCFG CFCtx)"
    and ds: "denseSetOrder iter"
  shows "driverInvariant pending winv (getCFG CFCtx) w BS \<Longrightarrow>
         fst (fixpointLoop iter W E CFCtx A InitEnv w Iterations BS) = Inl TimedOut \<or>
         (\<exists>BS1 w1. fst (fixpointLoop iter W E CFCtx A InitEnv w Iterations BS) = Inr BS1 \<and>
            driverInvariant pending winv (getCFG CFCtx) w1 BS1 \<and> pending w1 = {})"
  using wf wc ds
proof (induction iter W E CFCtx A InitEnv w Iterations BS rule: fixpointLoop.induct)
  case (1 iter W E CFCtx A InitEnv Worklist Iterations BlockStates)
  let ?G = "getCFG CFCtx"
  from "1.prems"(1) have winv: "winv Worklist" and len: "length BlockStates = size_CFG ?G"
    and pend: "\<forall>b \<in> pending Worklist. reached ?G b \<and> b < size_CFG ?G"
    by (simp_all add: driverInvariant_def)
  show ?case
  proof (cases "dequeue W Worklist")
    case None
    with "1.prems"(3) winv have "pending Worklist = {}"
      using worklistContract_def [of W pending winv ?G] by (auto split: option.splits)
    with None "1.prems"(1) show ?thesis
      by (subst fixpointLoop.simps) auto
  next
    case (Some r)
    obtain b w1 where r: "r = (b, w1)" by (cases r)
    show ?thesis
    proof (cases "Suc Iterations > MaxIterations")
      case True
      with Some r show ?thesis by (subst fixpointLoop.simps) simp
    next
      case False
      from "1.prems"(3) winv Some r have "b \<in> pending Worklist"
        using worklistContract_def [of W pending winv ?G] by (auto split: option.splits)
      with pend have bs: "b < size_CFG ?G" by blast
      from processBlock_defined [OF "1.prems"(2) bs len "1.prems"(4), of W InitEnv w1]
      obtain w2 BS2 where step:
        "processBlock iter W E CFCtx A InitEnv b w1 BlockStates = Inr (w2, BS2)"
        by (metis surj_pair)
      from driverInvariant_step [OF "1.prems"(2,3,1) Some [unfolded r] step]
      have inv2: "driverInvariant pending winv ?G w2 BS2" .
      from "1.IH" [OF Some r [symmetric] False step refl inv2 "1.prems"(2,3,4)]
      have "fst (fixpointLoop iter W E CFCtx A InitEnv w2 (Suc Iterations) BS2) = Inl TimedOut \<or>
         (\<exists>BS1 w1. fst (fixpointLoop iter W E CFCtx A InitEnv w2 (Suc Iterations) BS2) = Inr BS1 \<and>
            driverInvariant pending winv ?G w1 BS1 \<and> pending w1 = {})" .
      with Some r False step show ?thesis
        by (subst fixpointLoop.simps) (simp add: Let_def)
    qed
  qed
qed

lemma driverInvariant_final:
  assumes wf: "wf_context E A CFCtx"
    and inv: "driverInvariant pending winv (getCFG CFCtx) w BS" and empty: "pending w = {}"
  shows "reached (getCFG CFCtx) b \<Longrightarrow> b < size_CFG (getCFG CFCtx) \<and> BS ! b \<noteq> None"
proof (induction rule: reached.induct)
  case reached_entry
  from wf inv show ?case by (simp add: wf_context_def driverInvariant_def)
next
  case (reached_succ b c)
  from wf reached_succ.hyps(2,4) have "c < size_CFG (getCFG CFCtx)"
    by (auto simp: wf_context_def wf_edges_def size_CFG_def)
  moreover from inv empty reached_succ.IH reached_succ.hyps(2,3,4)
  have "BS ! c \<noteq> None"
    unfolding driverInvariant_def by blast
  ultimately show ?case by simp
qed

subsection \<open>Facts about the first-in first-out worklist and the runs of the instances\<close>

lemma foldl_enqueueBlock:
  "distinct q \<Longrightarrow> distinct (foldl enqueueBlock q ss) \<and>
     set (foldl enqueueBlock q ss) = set q \<union> {c. Some c \<in> set ss}"
proof (induction ss arbitrary: q)
  case Nil
  then show ?case by simp
next
  case (Cons s ss)
  have "distinct (enqueueBlock q s)" "set (enqueueBlock q s) = set q \<union> {c. Some c = s}"
    using Cons.prems by (auto simp: enqueueBlock_def split: option.splits)
  with Cons.IH [of "enqueueBlock q s"] show ?case by auto
qed

lemma fifoWorklist_contract: "worklistContract fifoWorklist set distinct G"
proof -
  have enq: "distinct (enqueueSuccessors fifoWorklist w B) \<and>
      set (enqueueSuccessors fifoWorklist w B) = set w \<union> {c. Some c \<in> set (Succs B)}"
    if "distinct w" for w B
    using foldl_enqueueBlock [OF that, of "Succs B"] by (simp add: fifoWorklist_def)
  have deq: "case dequeue fifoWorklist w of None \<Rightarrow> set w = {}
     | Some (b, w1) \<Rightarrow> b \<in> set w \<and> distinct w1 \<and> set w1 = set w - {b}"
    if "distinct w" for w
    using that by (cases w) (auto simp: fifoWorklist_def)
  have new: "distinct (newWorklist fifoWorklist G)" "set (newWorklist fifoWorklist G) = {}"
    by (simp_all add: fifoWorklist_def)
  from enq deq new show ?thesis
    unfolding worklistContract_def by blast
qed

lemma run_dtor:
  "runWithDequeues remdups fifoWorklist listEnvironment dtorContext (tracingAnalysis False) [] =
   (Inr dtorResult, [1, 2, 3, 4, 5, 6, 0])"
  by (simp add: runWithDequeues_def fixpointLoop.simps processBlock_def transferBlock_def
      computeBlockInputState_def prunedPreds_def transferElement_def transferCFGStmt_def
      isTemporaryDtorsBranch_def getTerminatorStmt_def getBlock_def getSlot_def joinInto_def
      dtorContext_def dtorCFG_def plainBlock_def tracingAnalysis_def size_CFG_def dtorResult_def
      listEnvironment_def fifoWorklist_def enqueueBlock_def MaxIterations_def Let_def)


subsection \<open>The result of a run\<close>

text \<open>
  Claim C1.  For a context, an analysis and an environment that meet the contract of
  the file, a worklist that meets the contract of a worklist and any iteration order
  of the predecessor sets, \<open>runTypeErasedDataflowAnalysis\<close> returns the timeout failure
  or a store.  The store has one slot per block of the graph, the slot of the entry
  block is set, and a slot is unset exactly when its block is not reached: it is not
  the entry and no path of successor edges leads to it from the entry through blocks
  without a no-return element.
\<close>

theorem runTypeErasedDataflowAnalysis_store:
  assumes wf: "wf_context E A CFCtx"
    and wc: "worklistContract W pending winv (getCFG CFCtx)"
    and ds: "denseSetOrder iter"
  shows "runTypeErasedDataflowAnalysis iter W E CFCtx A InitEnv = Inl TimedOut \<or>
         (\<exists>BlockStates.
            runTypeErasedDataflowAnalysis iter W E CFCtx A InitEnv = Inr BlockStates \<and>
            length BlockStates = size_CFG (getCFG CFCtx) \<and>
            BlockStates ! getEntry (getCFG CFCtx) \<noteq> None \<and>
            (\<forall>b < size_CFG (getCFG CFCtx).
               BlockStates ! b = None \<longleftrightarrow> \<not> reached (getCFG CFCtx) b))"
proof -
  let ?G = "getCFG CFCtx"
  let ?w = "enqueueSuccessors W (newWorklist W ?G) (Blocks ?G ! getEntry ?G)"
  let ?BS = "(replicate (size_CFG ?G) None)
               [getEntry ?G := Some \<lparr>Lattice = typeErasedInitialElement A, Env = InitEnv\<rparr>]"
  from wf have e: "getEntry ?G < length (Blocks ?G)"
    by (simp add: wf_context_def size_CFG_def)
  then have run: "runTypeErasedDataflowAnalysis iter W E CFCtx A InitEnv =
      fst (fixpointLoop iter W E CFCtx A InitEnv ?w 0 ?BS)"
    by (simp add: runTypeErasedDataflowAnalysis_def runWithDequeues_def getBlock_def Let_def)
  from fixpointLoop_invariant [OF wf wc ds driverInvariant_init [OF wf wc],
      where InitEnv = InitEnv and Iterations = 0]
  have "fst (fixpointLoop iter W E CFCtx A InitEnv ?w 0 ?BS) = Inl TimedOut \<or>
         (\<exists>BS1 w1. fst (fixpointLoop iter W E CFCtx A InitEnv ?w 0 ?BS) = Inr BS1 \<and>
            driverInvariant pending winv ?G w1 BS1 \<and> pending w1 = {})" .
  then show ?thesis
  proof
    assume "fst (fixpointLoop iter W E CFCtx A InitEnv ?w 0 ?BS) = Inl TimedOut"
    with run show ?thesis by simp
  next
    assume "\<exists>BS1 w1. fst (fixpointLoop iter W E CFCtx A InitEnv ?w 0 ?BS) = Inr BS1 \<and>
            driverInvariant pending winv ?G w1 BS1 \<and> pending w1 = {}"
    then obtain BS1 w1 where r: "fst (fixpointLoop iter W E CFCtx A InitEnv ?w 0 ?BS) = Inr BS1"
      and inv: "driverInvariant pending winv ?G w1 BS1" and empty: "pending w1 = {}"
      by blast
    from inv have "length BS1 = size_CFG ?G" "BS1 ! getEntry ?G \<noteq> None"
      "\<forall>b < size_CFG ?G. BS1 ! b \<noteq> None \<longrightarrow> reached ?G b"
      by (simp_all add: driverInvariant_def)
    moreover from driverInvariant_final [OF wf inv empty]
    have "\<forall>b < size_CFG ?G. reached ?G b \<longrightarrow> BS1 ! b \<noteq> None" by blast
    ultimately show ?thesis using run r by auto
  qed
qed


theorem runTypeErasedDataflowAnalysis_store_witness:
  "runTypeErasedDataflowAnalysis remdups fifoWorklist listEnvironment dtorContext
     (tracingAnalysis False) [] = Inr dtorResult \<and>
   length dtorResult = 9 \<and> dtorResult ! 8 = None \<and> \<not> reached dtorCFG 8 \<and> reached dtorCFG 0"
proof -
  have R: "runTypeErasedDataflowAnalysis remdups fifoWorklist listEnvironment dtorContext
     (tracingAnalysis False) [] = Inr dtorResult"
    by (simp add: runTypeErasedDataflowAnalysis_def run_dtor)
  have G: "getCFG dtorContext = dtorCFG" "size_CFG dtorCFG = 9"
    by (simp_all add: dtorContext_def dtorCFG_def size_CFG_def)
  from runTypeErasedDataflowAnalysis_store [OF wf_dtorContext [of False]
      fifoWorklist_contract [of "getCFG dtorContext"] denseSetOrder_remdups, where InitEnv = "[]"]
  have "\<forall>b < 9. (dtorResult ! b = None) = (\<not> reached dtorCFG b)"
    by (simp add: R G)
  from this [rule_format, of 8] this [rule_format, of 0] R show ?thesis
    by (simp add: dtorResult_def)
qed

subsection \<open>The iteration cap\<close>

lemma joinPredStates_failure:
  "joinPredStates E A G BS ps MaybeState = Inl e \<Longrightarrow> e = ContractViolation"
  by (induction E A G BS ps MaybeState rule: joinPredStates.induct)
     (auto simp: getBlock_def getSlot_def split: if_splits option.splits sum.splits)

lemma computeBlockInputState_failure:
  "computeBlockInputState iter E CFCtx BS Block InitEnv A = Inl e \<Longrightarrow> e = ContractViolation"
  by (auto simp: computeBlockInputState_def prunedPreds_def getBlock_def Let_def
      dest: joinPredStates_failure split: if_splits option.splits sum.splits list.splits)

lemma transferElement_failure:
  "transferElement E CFCtx BS A H Element State obs = Inl e \<Longrightarrow> e = ContractViolation"
  by (auto simp: transferElement_def transferCFGStmt_def transferCFGInitializer_def Let_def
      split: CFGElement.splits if_splits option.splits sum.splits)

lemma transferElements_failure:
  "transferElements E CFCtx BS A H es State obs = Inl e \<Longrightarrow> e = ContractViolation"
  by (induction es arbitrary: State obs)
     (auto dest: transferElement_failure split: sum.splits)

lemma processBlock_failure:
  "processBlock iter W E CFCtx A InitEnv b Worklist BS = Inl e \<Longrightarrow> e = ContractViolation"
  by (auto simp: processBlock_def transferBlock_def getBlock_def getSlot_def Let_def
      dest: computeBlockInputState_failure transferElements_failure
      split: if_splits option.splits sum.splits)

text \<open>Every dequeue raises the counter by one, and the loop times out exactly at the
  dequeue that takes the counter beyond \<open>MaxIterations\<close>.\<close>

lemma fixpointLoop_dequeues:
  "Iterations \<le> MaxIterations \<Longrightarrow>
   length (snd (fixpointLoop iter W E CFCtx A InitEnv w Iterations BS)) + Iterations
     \<le> Suc MaxIterations \<and>
   (fst (fixpointLoop iter W E CFCtx A InitEnv w Iterations BS) = Inl TimedOut \<longleftrightarrow>
    length (snd (fixpointLoop iter W E CFCtx A InitEnv w Iterations BS)) + Iterations
      = Suc MaxIterations)"
proof (induction iter W E CFCtx A InitEnv w Iterations BS rule: fixpointLoop.induct)
  case (1 iter W E CFCtx A InitEnv Worklist Iterations BlockStates)
  show ?case
  proof (cases "dequeue W Worklist")
    case None
    with "1.prems" show ?thesis by (subst (1 2 3) fixpointLoop.simps) simp
  next
    case (Some r)
    obtain b w1 where r: "r = (b, w1)" by (cases r)
    show ?thesis
    proof (cases "Suc Iterations > MaxIterations")
      case True
      with Some r "1.prems" show ?thesis by (subst (1 2 3) fixpointLoop.simps) simp
    next
      case False
      show ?thesis
      proof (cases "processBlock iter W E CFCtx A InitEnv b w1 BlockStates")
        case (Inl e)
        from processBlock_failure [OF Inl] have "e = ContractViolation" .
        with Some r False Inl show ?thesis by (subst (1 2 3) fixpointLoop.simps) simp
      next
        case (Inr q)
        obtain w2 BS2 where q: "q = (w2, BS2)" by (cases q)
        from False have "Suc Iterations \<le> MaxIterations" by simp
        from "1.IH" [OF Some r [symmetric] False Inr q [symmetric] this]
        show ?thesis using Some r False Inr q
          by (subst (1 2 3) fixpointLoop.simps) (simp add: Let_def)
      qed
    qed
  qed
qed

lemma processBlock_loop:
  "processBlock remdups fifoWorklist unitEnvironment loopContext countingAnalysis () 0 []
     [slot, Some \<lparr>Lattice = 0, Env = ()\<rparr>] =
   Inr ([0], [Some \<lparr>Lattice = Suc (case slot of None \<Rightarrow> 0 | Some State \<Rightarrow> Lattice State),
                     Env = ()\<rparr>,
              Some \<lparr>Lattice = 0, Env = ()\<rparr>])"
  by (cases slot)
     (simp_all add: processBlock_def transferBlock_def computeBlockInputState_def prunedPreds_def
      transferElement_def transferCFGStmt_def isTemporaryDtorsBranch_def getBlock_def getSlot_def
      joinInto_def loopContext_def loopCFG_def plainBlock_def countingAnalysis_def
      unitEnvironment_def fifoWorklist_def enqueueBlock_def Let_def)

lemma fixpointLoop_loop_times_out:
  "n = Suc MaxIterations - Iterations \<Longrightarrow> Iterations \<le> MaxIterations \<Longrightarrow>
   fst (fixpointLoop remdups fifoWorklist unitEnvironment loopContext countingAnalysis () [0]
          Iterations [slot, Some \<lparr>Lattice = 0, Env = ()\<rparr>]) = Inl TimedOut"
proof (induction n arbitrary: Iterations slot)
  case 0
  then show ?case by simp
next
  case (Suc n)
  show ?case
  proof (cases "Iterations = MaxIterations")
    case True
    then show ?thesis
      by (subst fixpointLoop.simps) (simp add: fifoWorklist_def)
  next
    case False
    with Suc.prems have lt: "Suc Iterations \<le> MaxIterations" "n = Suc MaxIterations - Suc Iterations"
      by simp_all
    have deq: "dequeue fifoWorklist [0] = Some (0, [])" by (simp add: fifoWorklist_def)
    from Suc.IH [OF lt(2) lt(1)] lt(1) show ?thesis
      by (subst fixpointLoop.simps) (simp add: deq processBlock_loop Let_def del: fixpointLoop.simps)
  qed
qed

lemma run_loop_times_out:
  "fst (runWithDequeues remdups fifoWorklist unitEnvironment loopContext countingAnalysis ())
     = Inl TimedOut"
proof -
  have "runWithDequeues remdups fifoWorklist unitEnvironment loopContext countingAnalysis () =
    fixpointLoop remdups fifoWorklist unitEnvironment loopContext countingAnalysis () [0] 0
      [None, Some \<lparr>Lattice = 0, Env = ()\<rparr>]"
    by (simp add: runWithDequeues_def getBlock_def size_CFG_def loopContext_def loopCFG_def
        plainBlock_def fifoWorklist_def enqueueBlock_def countingAnalysis_def Let_def
        del: fixpointLoop.simps)
  with fixpointLoop_loop_times_out [OF refl, of 0 None] show ?thesis by simp
qed


lemma runWithDequeues_dequeues:
  "length (snd (runWithDequeues iter W E CFCtx A InitEnv)) \<le> Suc MaxIterations \<and>
   (fst (runWithDequeues iter W E CFCtx A InitEnv) = Inl TimedOut \<longleftrightarrow>
      length (snd (runWithDequeues iter W E CFCtx A InitEnv)) = Suc MaxIterations)"
proof (cases "getEntry (getCFG CFCtx) < length (Blocks (getCFG CFCtx))")
  case True
  with fixpointLoop_dequeues [of 0 iter W E CFCtx A InitEnv] show ?thesis
    by (simp add: runWithDequeues_def getBlock_def Let_def del: fixpointLoop.simps)
next
  case False
  then show ?thesis
    by (simp add: runWithDequeues_def getBlock_def Let_def del: fixpointLoop.simps)
qed

text \<open>
  Claim C2, as amended.  The cap is the constant 65536.  Every dequeued block raises
  the counter by one: from a counter value within the cap, the number of blocks
  dequeued plus that value never exceeds the cap plus one, and the loop returns the
  timeout failure exactly when it reaches the cap plus one.  So a run dequeues at most
  65537 blocks and returns the timeout failure, in place of a store, exactly when it
  dequeues the 65537th, after it has processed 65536 blocks.  The timeout failure is the
  only failure the engine returns to its caller: the step that processes a block never
  produces it, and whatever else stops a step is a failed assertion of the file, which
  ends the program and returns nothing (\<open>ContractViolation\<close>).
\<close>

theorem timeout_at_dequeue_after_cap:
  "MaxIterations = 65536 \<and>
   (Iterations \<le> MaxIterations \<longrightarrow>
      length (snd (fixpointLoop iter W E CFCtx A InitEnv w Iterations BS)) + Iterations
        \<le> Suc MaxIterations \<and>
      (fst (fixpointLoop iter W E CFCtx A InitEnv w Iterations BS) = Inl TimedOut \<longleftrightarrow>
       length (snd (fixpointLoop iter W E CFCtx A InitEnv w Iterations BS)) + Iterations
         = Suc MaxIterations)) \<and>
   length (snd (runWithDequeues iter W E CFCtx A InitEnv)) \<le> Suc MaxIterations \<and>
   (runTypeErasedDataflowAnalysis iter W E CFCtx A InitEnv = Inl TimedOut \<longleftrightarrow>
      length (snd (runWithDequeues iter W E CFCtx A InitEnv)) = Suc MaxIterations) \<and>
   processBlock iter W E CFCtx A InitEnv b w BS \<noteq> Inl TimedOut"
proof (intro conjI impI)
  show "MaxIterations = 65536" by (simp add: MaxIterations_def)
next
  assume "Iterations \<le> MaxIterations"
  from fixpointLoop_dequeues [OF this, of iter W E CFCtx A InitEnv w BS]
  show "length (snd (fixpointLoop iter W E CFCtx A InitEnv w Iterations BS)) + Iterations
        \<le> Suc MaxIterations"
    and "fst (fixpointLoop iter W E CFCtx A InitEnv w Iterations BS) = Inl TimedOut \<longleftrightarrow>
       length (snd (fixpointLoop iter W E CFCtx A InitEnv w Iterations BS)) + Iterations
         = Suc MaxIterations"
    by blast+
next
  from runWithDequeues_dequeues [of iter W E CFCtx A InitEnv]
  show "length (snd (runWithDequeues iter W E CFCtx A InitEnv)) \<le> Suc MaxIterations"
    and "runTypeErasedDataflowAnalysis iter W E CFCtx A InitEnv = Inl TimedOut \<longleftrightarrow>
      length (snd (runWithDequeues iter W E CFCtx A InitEnv)) = Suc MaxIterations"
    by (simp_all add: runTypeErasedDataflowAnalysis_def)
next
  show "processBlock iter W E CFCtx A InitEnv b w BS \<noteq> Inl TimedOut"
    using processBlock_failure [of iter W E CFCtx A InitEnv b w BS TimedOut] by blast
qed

theorem timeout_at_dequeue_after_cap_witness:
  "length (snd (runWithDequeues remdups fifoWorklist listEnvironment dtorContext
      (tracingAnalysis False) [])) = 7 \<and>
   runTypeErasedDataflowAnalysis remdups fifoWorklist listEnvironment dtorContext
      (tracingAnalysis False) [] \<noteq> Inl TimedOut \<and>
   length (snd (fixpointLoop remdups fifoWorklist listEnvironment dtorContext
      (tracingAnalysis False) [] [] 65536 dtorStates)) + 65536 \<le> 65537"
proof -
  have len: "length (snd (runWithDequeues remdups fifoWorklist listEnvironment dtorContext
      (tracingAnalysis False) [])) = 7"
    by (simp add: run_dtor)
  have cap: "(7::nat) \<noteq> Suc MaxIterations" and M: "MaxIterations = 65536"
    by (simp_all add: MaxIterations_def)
  note dtor = timeout_at_dequeue_after_cap [where iter = remdups and W = fifoWorklist
      and E = listEnvironment and CFCtx = dtorContext and A = "tracingAnalysis False"
      and InitEnv = "[]", THEN conjunct2, THEN conjunct2, THEN conjunct2, THEN conjunct1]
  note loop = timeout_at_dequeue_after_cap [where iter = remdups and W = fifoWorklist
      and E = listEnvironment and CFCtx = dtorContext and A = "tracingAnalysis False"
      and InitEnv = "[]" and Iterations = 65536 and w = "[]" and BS = dtorStates,
      THEN conjunct2, THEN conjunct1, THEN mp, THEN conjunct1]
  from dtor len cap have "runTypeErasedDataflowAnalysis remdups fifoWorklist listEnvironment
      dtorContext (tracingAnalysis False) [] \<noteq> Inl TimedOut"
    by simp
  moreover from loop M
  have "length (snd (fixpointLoop remdups fifoWorklist listEnvironment dtorContext
      (tracingAnalysis False) [] [] 65536 dtorStates)) + 65536 \<le> 65537"
    by (simp del: fixpointLoop.simps)
  ultimately show ?thesis using len by blast
qed

text \<open>
  Claim C2 as stated fails: on the graph with a block that loops to itself, the
  analysis that counts never converges, the run returns the timeout failure, and it
  has then dequeued 65537 blocks, not 65536.
\<close>

theorem nonconverging_run_dequeues_cap_plus_one:
  "runTypeErasedDataflowAnalysis remdups fifoWorklist unitEnvironment loopContext
     countingAnalysis () = Inl TimedOut \<and>
   length (snd (runWithDequeues remdups fifoWorklist unitEnvironment loopContext
     countingAnalysis ())) = 65537 \<and>
   length (snd (runWithDequeues remdups fifoWorklist unitEnvironment loopContext
     countingAnalysis ())) \<noteq> MaxIterations"
  using run_loop_times_out
    runWithDequeues_dequeues [of remdups fifoWorklist unitEnvironment loopContext
      countingAnalysis "()"]
  by (simp add: runTypeErasedDataflowAnalysis_def MaxIterations_def)

end
